theory Spec2Isabelle
  imports Complex_Main
begin

section \<open>Conventions of the embedding\<close>

text \<open>
  The option pricers of \<^verbatim>\<open>binomial_option.py\<close> and \<^verbatim>\<open>monte_carlo_option.py\<close> are
  embedded function by function. A Python \<^verbatim>\<open>float\<close> is a \<^typ>\<open>real\<close>: arithmetic is exact,
  so rounding, overflow, infinities and NaN are outside the model. A Python \<^verbatim>\<open>int\<close>
  is an \<^typ>\<open>int\<close>, a \<^verbatim>\<open>str\<close> a \<^typ>\<open>string\<close>. An exception is the \<open>Inl\<close> branch of a
  sum; the \<^verbatim>\<open>ValueError\<close>s keep the message of the source, which is what tells the
  parameter checks from the check of the risk-neutral probability.
\<close>

datatype error =
    ValueError string
  | ZeroDivisionError
  | IndexError
  | SyntaxError
  | NameError string
  | TypeError
  | AttributeError

text \<open>
  A \<^verbatim>\<open>for\<close> loop over a list of indices whose body may raise: the state is threaded
  through the iterations and the first exception ends the loop.
\<close>

fun for_loop :: "(nat \<Rightarrow> 's \<Rightarrow> error + 's) \<Rightarrow> nat list \<Rightarrow> 's \<Rightarrow> error + 's" where
  "for_loop body [] s = Inr s"
| "for_loop body (i # is) s =
     (case body i s of Inl e \<Rightarrow> Inl e | Inr s' \<Rightarrow> for_loop body is s')"

section \<open>The binomial lattice: \<^verbatim>\<open>binomial_option.py\<close>\<close>

text \<open>\<^verbatim>\<open>_validate_inputs(spot, strike, maturity, steps)\<close>, the checks in the source's order.\<close>

definition validate_inputs :: "real \<Rightarrow> real \<Rightarrow> real \<Rightarrow> int \<Rightarrow> error + unit" where
  "validate_inputs spot strike maturity steps =
     (if spot \<le> 0 then Inl (ValueError ''spot price must be positive'')
      else if strike \<le> 0 then Inl (ValueError ''strike price must be positive'')
      else if maturity \<le> 0 then Inl (ValueError ''maturity must be positive'')
      else if steps < 1 then Inl (ValueError ''steps must be at least 1'')
      else Inr ())"

text \<open>
  The intrinsic value of a node, written twice in the source:
  \<^verbatim>\<open>max(asset_price - strike, 0.0) if option_type == "call" else max(strike - asset_price, 0.0)\<close>.
  Every option type other than \<^verbatim>\<open>"call"\<close> is priced as a put.
\<close>

definition intrinsic :: "string \<Rightarrow> real \<Rightarrow> real \<Rightarrow> real" where
  "intrinsic option_type asset_price strike =
     (if option_type = ''call'' then max (asset_price - strike) 0
      else max (strike - asset_price) 0)"

text \<open>The quantities the loops of \<^verbatim>\<open>price_binomial_option\<close> read, as one record.\<close>

record lattice =
  l_spot :: real
  l_strike :: real
  l_up :: real
  l_down :: real
  l_prob_up :: real
  l_discount :: real
  l_option_type :: string
  l_american :: bool

text \<open>
  The terminal payoffs: \<^verbatim>\<open>for i in range(steps + 1)\<close> appends the intrinsic value at
  the price \<^verbatim>\<open>spot * (up ** i) * (down ** (steps - i))\<close>.
\<close>

definition terminal_payoffs :: "lattice \<Rightarrow> nat \<Rightarrow> real list" where
  "terminal_payoffs L steps =
     map (\<lambda>i. intrinsic (l_option_type L)
                 (l_spot L * l_up L ^ i * l_down L ^ (steps - i)) (l_strike L))
         [0..<steps + 1]"

text \<open>
  The body of the inner loop at node \<open>(step, i)\<close>: it reads \<^verbatim>\<open>payoffs[i + 1]\<close> and
  \<^verbatim>\<open>payoffs[i]\<close> (an \<^verbatim>\<open>IndexError\<close> out of range) and overwrites \<^verbatim>\<open>payoffs[i]\<close>
  in place.
\<close>

definition node_update :: "lattice \<Rightarrow> nat \<Rightarrow> nat \<Rightarrow> real list \<Rightarrow> error + real list" where
  "node_update L step i payoffs =
     (if i + 1 < length payoffs then
        (let continuation =
               l_discount L * (l_prob_up L * payoffs ! (i + 1) + (1 - l_prob_up L) * payoffs ! i)
         in if l_american L then
              (let asset_price = l_spot L * l_up L ^ i * l_down L ^ (step - i);
                   intr = intrinsic (l_option_type L) asset_price (l_strike L)
               in Inr (payoffs[i := max continuation intr]))
            else Inr (payoffs[i := continuation]))
      else Inl IndexError)"

text \<open>\<^verbatim>\<open>for i in range(step + 1)\<close>: one time step of the backward pass.\<close>

definition backward_step :: "lattice \<Rightarrow> nat \<Rightarrow> real list \<Rightarrow> error + real list" where
  "backward_step L step payoffs = for_loop (node_update L step) [0..<step + 1] payoffs"

text \<open>\<^verbatim>\<open>for step in range(steps - 1, -1, -1)\<close>: the whole backward pass.\<close>

definition backward_induction :: "lattice \<Rightarrow> nat \<Rightarrow> real list \<Rightarrow> error + real list" where
  "backward_induction L steps payoffs = for_loop (backward_step L) (rev [0..<steps]) payoffs"

text \<open>
  \<^verbatim>\<open>price_binomial_option\<close> up to its last line: the list \<^verbatim>\<open>payoffs\<close> as the backward
  pass leaves it. The divisions are guarded as Python guards them: \<^verbatim>\<open>1 / up\<close> and
  \<^verbatim>\<open>(growth - down) / (up - down)\<close> raise \<^verbatim>\<open>ZeroDivisionError\<close> on a zero divisor.
\<close>

definition binomial_frontier ::
  "real \<Rightarrow> real \<Rightarrow> real \<Rightarrow> real \<Rightarrow> real \<Rightarrow> int \<Rightarrow> string \<Rightarrow> string \<Rightarrow> real \<Rightarrow> error + real list" where
  "binomial_frontier spot strike rate volatility maturity steps option_type exercise dividend_yield =
     (case validate_inputs spot strike maturity steps of
        Inl e \<Rightarrow> Inl e
      | Inr _ \<Rightarrow>
          (let dt = maturity / real_of_int steps in
           if dt = 0 then Inl (ValueError ''time step size became zero'')
           else
             (let up = exp (volatility * sqrt dt) in
              if up = 0 then Inl ZeroDivisionError
              else
                (let down = 1 / up;
                     growth = exp ((rate - dividend_yield) * dt) in
                 if up - down = 0 then Inl ZeroDivisionError
                 else
                   (let prob_up = (growth - down) / (up - down) in
                    if \<not> (0 \<le> prob_up \<and> prob_up \<le> 1) then
                      Inl (ValueError ''risk-neutral probability is outside [0, 1]; adjust inputs'')
                    else
                      (let L = \<lparr> l_spot = spot, l_strike = strike, l_up = up, l_down = down,
                                 l_prob_up = prob_up, l_discount = exp (- rate * dt),
                                 l_option_type = option_type,
                                 l_american = (exercise = ''american'') \<rparr>
                       in backward_induction L (nat steps) (terminal_payoffs L (nat steps))))))))"

text \<open>\<^verbatim>\<open>return payoffs[0]\<close>.\<close>

definition price_binomial_option ::
  "real \<Rightarrow> real \<Rightarrow> real \<Rightarrow> real \<Rightarrow> real \<Rightarrow> int \<Rightarrow> string \<Rightarrow> string \<Rightarrow> real \<Rightarrow> error + real" where
  "price_binomial_option spot strike rate volatility maturity steps option_type exercise dividend_yield =
     (case binomial_frontier spot strike rate volatility maturity steps option_type exercise
             dividend_yield of
        Inl e \<Rightarrow> Inl e
      | Inr payoffs \<Rightarrow> (case payoffs of [] \<Rightarrow> Inl IndexError | v # _ \<Rightarrow> Inr v))"

section \<open>The Monte Carlo pricer: \<^verbatim>\<open>monte_carlo_option.py\<close>\<close>

text \<open>
  \<^verbatim>\<open>_validate_inputs(spot, volatility, maturity, steps, paths)\<close> of the Monte Carlo
  module, the checks in the source's order.
\<close>

definition mc_validate_inputs :: "real \<Rightarrow> real \<Rightarrow> real \<Rightarrow> int \<Rightarrow> int \<Rightarrow> error + unit" where
  "mc_validate_inputs spot volatility maturity steps paths =
     (if spot \<le> 0 then Inl (ValueError ''spot price must be positive'')
      else if volatility < 0 then Inl (ValueError ''volatility must be non-negative'')
      else if maturity \<le> 0 then Inl (ValueError ''maturity must be positive'')
      else if steps < 1 then Inl (ValueError ''steps must be at least 1'')
      else if paths < 1 then Inl (ValueError ''paths must be at least 1'')
      else Inr ())"

text \<open>
  The generator \<^verbatim>\<open>random.Random\<close> belongs to Python's library, not to the repository.
  Its state is a value of an arbitrary type \<open>'g\<close>, and the call
  \<^verbatim>\<open>rng.normalvariate(0.0, 1.0)\<close> is a function \<open>normalvariate\<close> from a state to the
  variate and the next state. Nothing is assumed about the distribution of the variates.

  The loop of \<^verbatim>\<open>_simulate_path\<close>: \<^verbatim>\<open>for _ in range(steps)\<close> draws \<open>z\<close>, multiplies
  \<^verbatim>\<open>current\<close> by \<^verbatim>\<open>exp(drift + diffusion * z)\<close> and appends it.
\<close>

fun simulate_steps ::
  "('g \<Rightarrow> real \<times> 'g) \<Rightarrow> real \<Rightarrow> real \<Rightarrow> nat \<Rightarrow> real \<Rightarrow> 'g \<Rightarrow> real list \<times> 'g" where
  "simulate_steps normalvariate drift diffusion 0 current rng = ([], rng)"
| "simulate_steps normalvariate drift diffusion (Suc n) current rng =
     (case normalvariate rng of
        (z, rng') \<Rightarrow>
          (case simulate_steps normalvariate drift diffusion n
                  (current * exp (drift + diffusion * z)) rng' of
             (prices, rng'') \<Rightarrow> (current * exp (drift + diffusion * z) # prices, rng'')))"

text \<open>
  \<^verbatim>\<open>_simulate_path\<close>. The division \<^verbatim>\<open>maturity / steps\<close> raises on \<open>steps = 0\<close> and
  \<^verbatim>\<open>math.sqrt(dt)\<close> raises a \<^verbatim>\<open>ValueError\<close> on a negative argument; the pricer calls
  the function only after its checks, where neither happens. The function returns the
  path together with the generator state it leaves behind.
\<close>

definition simulate_path ::
  "('g \<Rightarrow> real \<times> 'g) \<Rightarrow> real \<Rightarrow> real \<Rightarrow> real \<Rightarrow> real \<Rightarrow> real \<Rightarrow> int \<Rightarrow> 'g
     \<Rightarrow> error + real list \<times> 'g" where
  "simulate_path normalvariate spot rate volatility dividend_yield maturity steps rng =
     (if steps = 0 then Inl ZeroDivisionError
      else
        (let dt = maturity / real_of_int steps;
             drift = (rate - dividend_yield - 0.5 * volatility * volatility) * dt
         in if dt < 0 then Inl (ValueError ''math domain error'')
            else
              (let diffusion = volatility * sqrt dt in
               case simulate_steps normalvariate drift diffusion (nat steps) spot rng of
                 (prices, rng') \<Rightarrow> Inr (spot # prices, rng'))))"

text \<open>
  The loop \<^verbatim>\<open>for _ in range(paths)\<close> of \<^verbatim>\<open>price_monte_carlo_option\<close>: simulate a
  path, append its payoff. The payoff is any callable of the caller's and may raise; an
  exception of the simulation or of the payoff ends the loop.
\<close>

fun mc_trials ::
  "('g \<Rightarrow> error + real list \<times> 'g) \<Rightarrow> (real list \<Rightarrow> error + real) \<Rightarrow> nat \<Rightarrow> 'g
     \<Rightarrow> error + real list \<times> 'g" where
  "mc_trials simulate payoff 0 rng = Inr ([], rng)"
| "mc_trials simulate payoff (Suc n) rng =
     (case simulate rng of
        Inl e \<Rightarrow> Inl e
      | Inr (path, rng') \<Rightarrow>
          (case payoff path of
             Inl e \<Rightarrow> Inl e
           | Inr v \<Rightarrow>
               (case mc_trials simulate payoff n rng' of
                  Inl e \<Rightarrow> Inl e
                | Inr (payoffs, rng'') \<Rightarrow> Inr (v # payoffs, rng''))))"

text \<open>
  \<^verbatim>\<open>price_monte_carlo_option\<close>. \<^verbatim>\<open>random.Random(seed)\<close> builds the generator from the
  seed when there is one (the function \<open>Random\<close>); with \<^verbatim>\<open>seed=None\<close> Python seeds it
  from the operating system, which is the argument \<open>entropy\<close>: the state such a
  generator starts in, different from run to run. The last line divides by
  \<^verbatim>\<open>len(payoffs)\<close>.
\<close>

definition price_monte_carlo_option ::
  "(int \<Rightarrow> 'g) \<Rightarrow> 'g \<Rightarrow> ('g \<Rightarrow> real \<times> 'g) \<Rightarrow>
   real \<Rightarrow> real \<Rightarrow> real \<Rightarrow> real \<Rightarrow> int \<Rightarrow> int \<Rightarrow> (real list \<Rightarrow> error + real) \<Rightarrow> real \<Rightarrow> int option
     \<Rightarrow> error + real" where
  "price_monte_carlo_option Random entropy normalvariate
       spot rate volatility maturity steps paths payoff dividend_yield seed =
     (case mc_validate_inputs spot volatility maturity steps paths of
        Inl e \<Rightarrow> Inl e
      | Inr _ \<Rightarrow>
          (let rng = (case seed of None \<Rightarrow> entropy | Some n \<Rightarrow> Random n);
               discount = exp (- rate * maturity)
           in case mc_trials
                     (simulate_path normalvariate spot rate volatility dividend_yield maturity steps)
                     payoff (nat paths) rng of
                Inl e \<Rightarrow> Inl e
              | Inr (payoffs, _) \<Rightarrow>
                  if length payoffs = 0 then Inl ZeroDivisionError
                  else Inr (discount * (sum_list payoffs / real (length payoffs)))))"

section \<open>The payoff expression evaluator: \<^verbatim>\<open>build_expression_payoff\<close>\<close>

text \<open>
  The values an expression's namespace holds: numbers, strings, the path (a list of
  prices), dictionaries, and the function objects of Python (\<^verbatim>\<open>max\<close>, \<^verbatim>\<open>min\<close>, the
  functions of \<^verbatim>\<open>math\<close>), which are named and left uninterpreted.
\<close>

datatype pyval =
    Num real
  | PyStr string
  | PyList "real list"
  | PyDict "(string \<times> pyval) list"
  | Builtin string

type_synonym namespace = "string \<rightharpoonup> pyval"

text \<open>
  The built-ins \<^verbatim>\<open>compile\<close>, \<^verbatim>\<open>eval\<close> and \<^verbatim>\<open>float\<close> are Python's, not the
  repository's: they are parameters of the embedding, and \<open>'code\<close> is the type of a
  compiled expression. \<^verbatim>\<open>eval(code, globals, locals)\<close> gets the two dictionaries the
  source passes to it. The list \<^verbatim>\<open>path\<close> is the one object the closure shares with
  its caller, and an expression can change it (\<^verbatim>\<open>path.append(...)\<close>): the last
  argument of \<open>py_eval\<close> is what the list holds before the evaluation, and the second
  component of the result is what it holds afterwards, whether the evaluation ends in a
  value or in an exception.
\<close>

record 'code python =
  py_compile :: "string \<Rightarrow> error + 'code"
  py_eval :: "'code \<Rightarrow> namespace \<Rightarrow> namespace \<Rightarrow> real list \<Rightarrow> (error + pyval) \<times> real list"
  py_float :: "pyval \<Rightarrow> error + real"

text \<open>\<^verbatim>\<open>name.startswith("_")\<close>.\<close>

definition is_private :: "string \<Rightarrow> bool" where
  "is_private name = (case name of [] \<Rightarrow> False | c # _ \<Rightarrow> c = CHR ''_'')"

text \<open>
  \<^verbatim>\<open>{name: getattr(math, name) for name in dir(math) if not name.startswith("_")}\<close>.
  The module \<^verbatim>\<open>math\<close> is the list of its attributes with their values, in the order
  of \<^verbatim>\<open>dir(math)\<close>; a later entry of a dictionary overrides an earlier one.
\<close>

definition math_namespace :: "(string \<times> pyval) list \<Rightarrow> namespace" where
  "math_namespace math_module =
     map_of (rev (filter (\<lambda>(name, value). \<not> is_private name) math_module))"

text \<open>\<^verbatim>\<open>{**math_namespace, "max": max, "min": min, "__builtins__": {}}\<close>.\<close>

definition safe_globals :: "(string \<times> pyval) list \<Rightarrow> namespace" where
  "safe_globals math_module =
     (math_namespace math_module)
       (''max'' \<mapsto> Builtin ''max'', ''min'' \<mapsto> Builtin ''min'', ''__builtins__'' \<mapsto> PyDict [])"

text \<open>
  The dictionary \<^verbatim>\<open>local_vars\<close> of the closure: the five entries derived from the
  path, then \<^verbatim>\<open>**extra_context\<close>, whose entries override them. \<^verbatim>\<open>path[-1]\<close> and
  \<^verbatim>\<open>path[0]\<close> raise \<^verbatim>\<open>IndexError\<close> on an empty path, before the dictionary
  exists. Python's \<^verbatim>\<open>int\<close> and \<^verbatim>\<open>float\<close> are both \<open>Num\<close>.
\<close>

definition local_vars :: "(string \<rightharpoonup> real) \<Rightarrow> real list \<Rightarrow> error + namespace" where
  "local_vars extra_context path =
     (if path = [] then Inl IndexError
      else
        Inr ([''path'' \<mapsto> PyList path,
              ''s'' \<mapsto> Num (last path),
              ''st'' \<mapsto> Num (last path),
              ''spot'' \<mapsto> Num (hd path),
              ''step'' \<mapsto> Num (real (length path) - 1)]
             ++ (\<lambda>name. map_option Num (extra_context name))))"

text \<open>
  The closure \<^verbatim>\<open>payoff(path)\<close> that \<^verbatim>\<open>build_expression_payoff\<close> returns:
  \<^verbatim>\<open>float(eval(code, safe_globals, local_vars))\<close>. The closure has no \<^verbatim>\<open>try\<close> and
  checks nothing, so what \<^verbatim>\<open>eval\<close> and \<^verbatim>\<open>float\<close> raise is what it raises. It
  returns its result together with what the caller's list holds afterwards.
\<close>

definition expression_payoff ::
  "'code python \<Rightarrow> (string \<times> pyval) list \<Rightarrow> 'code \<Rightarrow> (string \<rightharpoonup> real) \<Rightarrow> real list
     \<Rightarrow> (error + real) \<times> real list" where
  "expression_payoff py math_module code extra_context path =
     (case local_vars extra_context path of
        Inl e \<Rightarrow> (Inl e, path)
      | Inr locals \<Rightarrow>
          (case py_eval py code (safe_globals math_module) locals path of
             (Inl e, path') \<Rightarrow> (Inl e, path')
           | (Inr v, path') \<Rightarrow> (py_float py v, path')))"

text \<open>\<^verbatim>\<open>extra_context or {}\<close>: a missing context is the empty dictionary.\<close>

definition context_or_empty :: "(string \<rightharpoonup> real) option \<Rightarrow> (string \<rightharpoonup> real)" where
  "context_or_empty extra_context =
     (case extra_context of None \<Rightarrow> Map.empty | Some entries \<Rightarrow> entries)"

text \<open>
  \<^verbatim>\<open>build_expression_payoff(expression, extra_context=None)\<close>: the expression is
  compiled once, before the closure exists.
\<close>

definition build_expression_payoff ::
  "'code python \<Rightarrow> (string \<times> pyval) list \<Rightarrow> string \<Rightarrow> (string \<rightharpoonup> real) option
     \<Rightarrow> error + (real list \<Rightarrow> (error + real) \<times> real list)" where
  "build_expression_payoff py math_module expression extra_context =
     (case py_compile py expression of
        Inl e \<Rightarrow> Inl e
      | Inr code \<Rightarrow>
          Inr (expression_payoff py math_module code (context_or_empty extra_context)))"

section \<open>Reference definitions\<close>

text \<open>
  The definitions of this section are not code of the repository. They state what the
  loops above are compared with: the quantities of the Cox-Ross-Rubinstein model as the
  specification writes them, the value of a lattice node by the textbook recursion, the
  paths of geometric Brownian motion in closed form, and the names the documentation of
  the evaluator lists.
\<close>

subsection \<open>The lattice\<close>

text \<open>
  \<open>u = exp(\<sigma>\<surd>dt)\<close>, \<open>d = 1/u\<close>, \<open>g = exp((r - q) dt)\<close> and \<open>p = (g - d)/(u - d)\<close>
  with \<open>dt = T/N\<close>.
\<close>

definition up_factor :: "real \<Rightarrow> real \<Rightarrow> int \<Rightarrow> real" where
  "up_factor volatility maturity steps = exp (volatility * sqrt (maturity / real_of_int steps))"

definition down_factor :: "real \<Rightarrow> real \<Rightarrow> int \<Rightarrow> real" where
  "down_factor volatility maturity steps = 1 / up_factor volatility maturity steps"

definition growth_factor :: "real \<Rightarrow> real \<Rightarrow> real \<Rightarrow> int \<Rightarrow> real" where
  "growth_factor rate dividend_yield maturity steps =
     exp ((rate - dividend_yield) * (maturity / real_of_int steps))"

definition risk_neutral_prob :: "real \<Rightarrow> real \<Rightarrow> real \<Rightarrow> real \<Rightarrow> int \<Rightarrow> real" where
  "risk_neutral_prob rate dividend_yield volatility maturity steps =
     (growth_factor rate dividend_yield maturity steps - down_factor volatility maturity steps)
     / (up_factor volatility maturity steps - down_factor volatility maturity steps)"

text \<open>The record of quantities that \<^verbatim>\<open>price_binomial_option\<close> computes for its loops.\<close>

definition crr_lattice ::
  "real \<Rightarrow> real \<Rightarrow> real \<Rightarrow> real \<Rightarrow> real \<Rightarrow> int \<Rightarrow> string \<Rightarrow> string \<Rightarrow> real \<Rightarrow> lattice" where
  "crr_lattice spot strike rate volatility maturity steps option_type exercise dividend_yield =
     \<lparr> l_spot = spot, l_strike = strike,
       l_up = up_factor volatility maturity steps,
       l_down = down_factor volatility maturity steps,
       l_prob_up = risk_neutral_prob rate dividend_yield volatility maturity steps,
       l_discount = exp (- rate * (maturity / real_of_int steps)),
       l_option_type = option_type,
       l_american = (exercise = ''american'') \<rparr>"

text \<open>
  The value node \<open>(step, i)\<close> gets from an array holding the values of the next time
  step, and the array after the inner loop has passed the indices below \<open>j\<close>.
\<close>

definition node_new :: "lattice \<Rightarrow> nat \<Rightarrow> nat \<Rightarrow> real list \<Rightarrow> real" where
  "node_new L step i payoffs =
     (let continuation =
            l_discount L * (l_prob_up L * payoffs ! (i + 1) + (1 - l_prob_up L) * payoffs ! i)
      in if l_american L then
           max continuation
             (intrinsic (l_option_type L) (l_spot L * l_up L ^ i * l_down L ^ (step - i)) (l_strike L))
         else continuation)"

definition sweep :: "lattice \<Rightarrow> nat \<Rightarrow> nat \<Rightarrow> real list \<Rightarrow> real list" where
  "sweep L step j payoffs =
     map (\<lambda>i. if i < j then node_new L step i payoffs else payoffs ! i) [0..<length payoffs]"

text \<open>
  \<open>node_value L N k i\<close> is the value of node \<open>(N - k, i)\<close> of a lattice of \<open>N\<close> steps,
  \<open>k\<close> time steps before maturity: the intrinsic value at maturity, and before it the
  discounted expectation of the two successors, compared with the intrinsic value when
  the option is American.
\<close>

fun node_value :: "lattice \<Rightarrow> nat \<Rightarrow> nat \<Rightarrow> nat \<Rightarrow> real" where
  "node_value L N 0 i =
     intrinsic (l_option_type L) (l_spot L * l_up L ^ i * l_down L ^ (N - i)) (l_strike L)"
| "node_value L N (Suc k) i =
     (let continuation =
            l_discount L * (l_prob_up L * node_value L N k (i + 1)
                            + (1 - l_prob_up L) * node_value L N k i)
      in if l_american L then
           max continuation
             (intrinsic (l_option_type L)
                (l_spot L * l_up L ^ i * l_down L ^ (N - Suc k - i)) (l_strike L))
         else continuation)"

text \<open>
  The array after \<open>k\<close> time steps of the backward pass: entry \<open>i \<le> N - k\<close> holds the
  value of node \<open>(N - k, i)\<close>, and an entry above holds what the last step that wrote it
  left there.
\<close>

definition frontier :: "lattice \<Rightarrow> nat \<Rightarrow> nat \<Rightarrow> real list" where
  "frontier L N k = map (\<lambda>i. node_value L N (min k (N - i)) i) [0..<N + 1]"

text \<open>The first \<open>k\<close> iterations of the outer loop, from step \<open>steps - 1\<close> downwards.\<close>

definition backward_pass_prefix :: "lattice \<Rightarrow> nat \<Rightarrow> nat \<Rightarrow> real list \<Rightarrow> error + real list" where
  "backward_pass_prefix L steps k payoffs =
     for_loop (backward_step L) (take k (rev [0..<steps])) payoffs"

text \<open>The weight of \<open>j\<close> up moves among \<open>k\<close> steps: \<open>C(k, j) a\<^sup>j b\<^bsup>k - j\<^esup>\<close>.\<close>

definition binom_weight :: "real \<Rightarrow> real \<Rightarrow> nat \<Rightarrow> nat \<Rightarrow> real" where
  "binom_weight a b k j = real (k choose j) * a ^ j * b ^ (k - j)"

subsection \<open>The simulated paths\<close>

text \<open>The first \<open>n\<close> variates a generator yields, and its state after \<open>n\<close> draws.\<close>

fun draws :: "('g \<Rightarrow> real \<times> 'g) \<Rightarrow> nat \<Rightarrow> 'g \<Rightarrow> real list" where
  "draws normalvariate 0 rng = []"
| "draws normalvariate (Suc n) rng =
     (case normalvariate rng of (z, rng') \<Rightarrow> z # draws normalvariate n rng')"

fun advance :: "('g \<Rightarrow> real \<times> 'g) \<Rightarrow> nat \<Rightarrow> 'g \<Rightarrow> 'g" where
  "advance normalvariate 0 rng = rng"
| "advance normalvariate (Suc n) rng = advance normalvariate n (snd (normalvariate rng))"

text \<open>
  The path of the variates \<open>zs\<close>: entry \<open>k\<close> is the spot times the product of the first
  \<open>k\<close> factors \<open>exp(drift + diffusion z)\<close>.
\<close>

definition gbm_path :: "real \<Rightarrow> real \<Rightarrow> real \<Rightarrow> real list \<Rightarrow> real list" where
  "gbm_path spot drift diffusion zs =
     map (\<lambda>k. spot * prod_list (map (\<lambda>z. exp (drift + diffusion * z)) (take k zs)))
         [0..<length zs + 1]"

text \<open>\<open>drift = (r - q - \<sigma>\<^sup>2/2) T/N\<close> and \<open>diffusion = \<sigma>\<surd>(T/N)\<close>.\<close>

definition mc_drift :: "real \<Rightarrow> real \<Rightarrow> real \<Rightarrow> real \<Rightarrow> int \<Rightarrow> real" where
  "mc_drift rate dividend_yield volatility maturity steps =
     (rate - dividend_yield - 0.5 * volatility * volatility) * (maturity / real_of_int steps)"

definition mc_diffusion :: "real \<Rightarrow> real \<Rightarrow> int \<Rightarrow> real" where
  "mc_diffusion volatility maturity steps = volatility * sqrt (maturity / real_of_int steps)"

text \<open>The state the generator of a run starts in.\<close>

definition initial_rng :: "(int \<Rightarrow> 'g) \<Rightarrow> 'g \<Rightarrow> int option \<Rightarrow> 'g" where
  "initial_rng Random entropy seed = (case seed of None \<Rightarrow> entropy | Some n \<Rightarrow> Random n)"

text \<open>
  Trial \<open>j\<close> of \<open>M\<close> trials of \<open>N\<close> steps uses the \<open>j\<close>-th block of \<open>N\<close> among the first
  \<open>M N\<close> variates of the generator.
\<close>

definition trial_draws :: "('g \<Rightarrow> real \<times> 'g) \<Rightarrow> nat \<Rightarrow> nat \<Rightarrow> 'g \<Rightarrow> nat \<Rightarrow> real list" where
  "trial_draws normalvariate N M rng j = take N (drop (j * N) (draws normalvariate (M * N) rng))"

definition trial_path ::
  "('g \<Rightarrow> real \<times> 'g) \<Rightarrow> real \<Rightarrow> real \<Rightarrow> real \<Rightarrow> real \<Rightarrow> real \<Rightarrow> int \<Rightarrow> int \<Rightarrow> 'g \<Rightarrow> nat \<Rightarrow> real list" where
  "trial_path normalvariate spot rate dividend_yield volatility maturity steps paths rng j =
     gbm_path spot (mc_drift rate dividend_yield volatility maturity steps)
       (mc_diffusion volatility maturity steps)
       (trial_draws normalvariate (nat steps) (nat paths) rng j)"

text \<open>The deterministic forward prices \<open>S\<^sub>0 exp((r - q) k T/N)\<close> for \<open>k = 0, \<dots>, N\<close>.\<close>

definition forward_path :: "real \<Rightarrow> real \<Rightarrow> real \<Rightarrow> real \<Rightarrow> int \<Rightarrow> real list" where
  "forward_path spot rate dividend_yield maturity steps =
     map (\<lambda>k. spot * exp ((rate - dividend_yield) * real k * maturity / real_of_int steps))
         [0..<nat steps + 1]"

subsection \<open>The names of the evaluator\<close>

text \<open>
  The five names bound from the path, the names of \<^verbatim>\<open>math\<close> that pass the filter,
  and the names the documentation lists: the five, the keys of \<^verbatim>\<open>extra_context\<close>,
  the functions of \<^verbatim>\<open>math\<close>, \<^verbatim>\<open>max\<close> and \<^verbatim>\<open>min\<close>.
\<close>

definition path_names :: "string set" where
  "path_names = {''path'', ''s'', ''st'', ''spot'', ''step''}"

definition public_math_names :: "(string \<times> pyval) list \<Rightarrow> string set" where
  "public_math_names math_module = {name \<in> fst ` set math_module. \<not> is_private name}"

definition documented_names :: "(string \<times> pyval) list \<Rightarrow> (string \<rightharpoonup> real) \<Rightarrow> string set" where
  "documented_names math_module extra_context =
     path_names \<union> dom extra_context \<union> public_math_names math_module \<union> {''max'', ''min''}"


subsection \<open>Python on four expressions\<close>

text \<open>
  What CPython's \<^verbatim>\<open>compile\<close>, \<^verbatim>\<open>eval\<close> and \<^verbatim>\<open>float\<close> do with four expressions, for
  the statements below that need the built-ins at a concrete input. This is a fragment:
  it says nothing about any other expression, and its \<open>fragment_compile\<close> turns every
  other string away.

  \<^item> \<^verbatim>\<open>('5')\<close> is a string literal: its value is the string \<^verbatim>\<open>'5'\<close>.
  \<^item> \<^verbatim>\<open>0 and nope\<close>: \<^verbatim>\<open>and\<close> stops at a false left operand, so the value is \<open>0\<close>
    and the name \<^verbatim>\<open>nope\<close> is never looked up.
  \<^item> \<^verbatim>\<open>path.append(0.0) or nope\<close>: the call appends to the list and returns
    \<^verbatim>\<open>None\<close>, which is false, so \<^verbatim>\<open>nope\<close> is looked up next, among the locals and
    then the globals (the built-ins are empty); when \<^verbatim>\<open>path\<close> is bound to something
    that is not a list, the attribute \<^verbatim>\<open>append\<close> is missing.
  \<^item> The fourth walks from the empty tuple to \<^verbatim>\<open>object\<close>, to its subclasses, to the
    class \<^verbatim>\<open>_wrap_close\<close> of the module \<^verbatim>\<open>os\<close>, to the globals of that module, and
    calls \<^verbatim>\<open>getpid\<close>: its value is the identifier of the process that runs the
    interpreter, the parameter \<open>pid\<close> below. It looks up no name of either dictionary.

  \<^verbatim>\<open>float\<close> returns a number as it is, reads the string \<^verbatim>\<open>'5'\<close> as \<open>5.0\<close>, and
  raises \<^verbatim>\<open>TypeError\<close> on a list, a dictionary or a function.
\<close>

datatype fragment_code = Quoted_Five | Zero_And_Nope | Append_Or_Nope | Subclasses_Getpid

definition fragment_compile :: "string \<Rightarrow> error + fragment_code" where
  "fragment_compile expression =
     (if expression = ''('5')'' then Inr Quoted_Five
      else if expression = ''0 and nope'' then Inr Zero_And_Nope
      else if expression = ''path.append(0.0) or nope'' then Inr Append_Or_Nope
      else if expression =
          ''[c for c in ().__class__.__base__.__subclasses__() if c.__name__ == '_wrap_close'][0].__init__.__globals__['getpid']()''
        then Inr Subclasses_Getpid
      else Inl SyntaxError)"

definition load_name :: "namespace \<Rightarrow> namespace \<Rightarrow> string \<Rightarrow> error + pyval" where
  "load_name globals locals name =
     (case locals name of
        Some v \<Rightarrow> Inr v
      | None \<Rightarrow> (case globals name of Some v \<Rightarrow> Inr v | None \<Rightarrow> Inl (NameError name)))"

fun fragment_eval ::
  "int \<Rightarrow> fragment_code \<Rightarrow> namespace \<Rightarrow> namespace \<Rightarrow> real list \<Rightarrow> (error + pyval) \<times> real list" where
  "fragment_eval pid Quoted_Five globals locals path = (Inr (PyStr ''5''), path)"
| "fragment_eval pid Zero_And_Nope globals locals path = (Inr (Num 0), path)"
| "fragment_eval pid Append_Or_Nope globals locals path =
     (case load_name globals locals ''path'' of
        Inl e \<Rightarrow> (Inl e, path)
      | Inr (PyList _) \<Rightarrow> (load_name globals locals ''nope'', path @ [0])
      | Inr _ \<Rightarrow> (Inl AttributeError, path))"
| "fragment_eval pid Subclasses_Getpid globals locals path = (Inr (Num (real_of_int pid)), path)"

fun fragment_float :: "pyval \<Rightarrow> error + real" where
  "fragment_float (Num r) = Inr r"
| "fragment_float (PyStr s) =
     (if s = ''5'' then Inr 5 else Inl (ValueError ''could not convert string to float''))"
| "fragment_float (PyList _) = Inl TypeError"
| "fragment_float (PyDict _) = Inl TypeError"
| "fragment_float (Builtin _) = Inl TypeError"

definition cpython_fragment :: "int \<Rightarrow> fragment_code python" where
  "cpython_fragment pid =
     \<lparr> py_compile = fragment_compile, py_eval = fragment_eval pid, py_float = fragment_float \<rparr>"

section \<open>The backward pass, step by step\<close>

text \<open>
  The inner loop writes the new value of every node of its time step and nothing else;
  it reads \<^verbatim>\<open>payoffs[i + 1]\<close> before any iteration has overwritten it, so updating
  in place computes the same values as a fresh array would.
\<close>

lemma for_loop_append:
  "for_loop body (xs @ ys) s =
     (case for_loop body xs s of Inl e \<Rightarrow> Inl e | Inr s' \<Rightarrow> for_loop body ys s')"
  by (induction xs arbitrary: s) (auto split: sum.splits)

lemma node_update_eq:
  "i + 1 < length payoffs \<Longrightarrow> node_update L step i payoffs = Inr (payoffs[i := node_new L step i payoffs])"
  by (simp add: node_update_def node_new_def Let_def)

lemma length_sweep: "length (sweep L step j payoffs) = length payoffs"
  by (simp add: sweep_def)

lemma sweep_0: "sweep L step 0 payoffs = payoffs"
  by (simp add: sweep_def map_nth)

lemma node_new_sweep:
  "j + 1 < length payoffs \<Longrightarrow> node_new L step j (sweep L step j payoffs) = node_new L step j payoffs"
  by (simp add: node_new_def sweep_def)

lemma sweep_Suc:
  "j < length payoffs \<Longrightarrow>
   (sweep L step j payoffs)[j := node_new L step j payoffs] = sweep L step (Suc j) payoffs"
  by (rule nth_equalityI) (auto simp: sweep_def nth_list_update less_Suc_eq)

lemma inner_loop_sweep:
  "j < length payoffs \<Longrightarrow>
   for_loop (node_update L step) [0..<j] payoffs = Inr (sweep L step j payoffs)"
proof (induction j)
  case 0
  then show ?case by (simp add: sweep_0)
next
  case (Suc j)
  then have IH: "for_loop (node_update L step) [0..<j] payoffs = Inr (sweep L step j payoffs)"
    by simp
  have "node_update L step j (sweep L step j payoffs)
        = Inr ((sweep L step j payoffs)[j := node_new L step j payoffs])"
    using Suc.prems by (simp add: node_update_eq length_sweep node_new_sweep)
  then show ?case
    using Suc.prems by (simp add: for_loop_append IH sweep_Suc)
qed

lemma backward_step_sweep:
  "step + 1 < length payoffs \<Longrightarrow> backward_step L step payoffs = Inr (sweep L step (step + 1) payoffs)"
  unfolding backward_step_def by (rule inner_loop_sweep)

text \<open>
  The outer loop: after \<open>k\<close> time steps the array is \<open>frontier L N k\<close>, and no read is
  out of range.
\<close>

lemma length_frontier: "length (frontier L N k) = N + 1"
  by (simp add: frontier_def)

lemma nth_frontier: "i \<le> N \<Longrightarrow> frontier L N k ! i = node_value L N (min k (N - i)) i"
  unfolding frontier_def by (subst nth_map) (simp_all del: upt_Suc)

lemma frontier_0: "frontier L N 0 = terminal_payoffs L N"
  by (simp add: frontier_def terminal_payoffs_def)

lemma sweep_frontier:
  assumes "k < N"
  shows "sweep L (N - Suc k) (N - Suc k + 1) (frontier L N k) = frontier L N (Suc k)"
proof (rule nth_equalityI)
  show "length (sweep L (N - Suc k) (N - Suc k + 1) (frontier L N k)) = length (frontier L N (Suc k))"
    by (simp add: sweep_def frontier_def)
next
  fix i assume "i < length (sweep L (N - Suc k) (N - Suc k + 1) (frontier L N k))"
  then have i: "i \<le> N" by (simp add: sweep_def frontier_def)
  show "sweep L (N - Suc k) (N - Suc k + 1) (frontier L N k) ! i = frontier L N (Suc k) ! i"
  proof (cases "i < N - Suc k + 1")
    case True
    then have a: "min k (N - i) = k" "min k (N - (i + 1)) = k" "min (Suc k) (N - i) = Suc k"
      using assms by auto
    have b: "i + 1 < N + 1" "i < N + 1" using True assms by auto
    show ?thesis
      using True i assms
      by (simp add: sweep_def frontier_def node_new_def a Let_def del: upt_Suc)
  next
    case False
    then have "min k (N - i) = N - i" "min (Suc k) (N - i) = N - i" using assms by auto
    then show ?thesis using False i by (simp add: sweep_def frontier_def del: upt_Suc)
  qed
qed

lemma rev_upt_take_Suc:
  "k < N \<Longrightarrow> take (Suc k) (rev [0..<N]) = take k (rev [0..<N]) @ [N - Suc k]"
  by (simp add: take_Suc_conv_app_nth rev_nth)

lemma backward_pass_frontier:
  "k \<le> N \<Longrightarrow>
   for_loop (backward_step L) (take k (rev [0..<N])) (terminal_payoffs L N) = Inr (frontier L N k)"
proof (induction k)
  case 0
  then show ?case by (simp add: frontier_0)
next
  case (Suc k)
  then have k: "k < N" by simp
  have "N - Suc k + 1 < length (frontier L N k)"
    using k by (simp add: length_frontier)
  then have "backward_step L (N - Suc k) (frontier L N k) = Inr (frontier L N (Suc k))"
    by (simp only: backward_step_sweep sweep_frontier [OF k])
  then show ?case
    using Suc k by (simp add: rev_upt_take_Suc for_loop_append)
qed

lemma backward_induction_frontier:
  "backward_induction L N (terminal_payoffs L N) = Inr (frontier L N N)"
  using backward_pass_frontier [of N N L] by (simp add: backward_induction_def)

lemma backward_induction_prefix:
  "backward_induction L steps payoffs = backward_pass_prefix L steps steps payoffs"
  by (simp add: backward_induction_def backward_pass_prefix_def)

lemma frontier_hd: "frontier L N N = v # vs \<Longrightarrow> v = node_value L N N 0"
  using nth_frontier [of 0 N L N] by simp

lemma frontier_Cons: "\<exists>vs. frontier L N N = node_value L N N 0 # vs"
proof -
  have "frontier L N N \<noteq> []"
    using length_frontier [of L N N] by auto
  then obtain v vs where eq: "frontier L N N = v # vs"
    by (cases "frontier L N N") auto
  then have "v = node_value L N N 0" by (rule frontier_hd)
  with eq show ?thesis by simp
qed

section \<open>Accepted and rejected inputs of the lattice pricer\<close>

text \<open>
  The up and down factors coincide exactly at a volatility of zero. The case analysis
  of \<^verbatim>\<open>price_binomial_option\<close> follows: the four parameter errors, the division by
  zero, the error of the risk-neutral probability, and the value of the root node.
  Over the reals the check \<^verbatim>\<open>dt == 0\<close> never fires once the parameters are accepted.
\<close>

lemma up_eq_down_iff:
  assumes "0 < maturity" "1 \<le> steps"
  shows "up_factor volatility maturity steps = down_factor volatility maturity steps \<longleftrightarrow> volatility = 0"
proof -
  let ?x = "volatility * sqrt (maturity / real_of_int steps)"
  have pos: "0 < sqrt (maturity / real_of_int steps)"
    using assms by simp
  have "exp ?x = 1 / exp ?x \<longleftrightarrow> exp ?x = exp (- ?x)"
    by (simp add: exp_minus inverse_eq_divide)
  also have "\<dots> \<longleftrightarrow> ?x = 0"
    by simp
  also have "\<dots> \<longleftrightarrow> volatility = 0"
    using assms by auto
  finally show ?thesis
    by (simp add: up_factor_def down_factor_def)
qed

lemma binomial_frontier_eq:
  "binomial_frontier spot strike rate volatility maturity steps option_type exercise dividend_yield =
     (if spot \<le> 0 then Inl (ValueError ''spot price must be positive'')
      else if strike \<le> 0 then Inl (ValueError ''strike price must be positive'')
      else if maturity \<le> 0 then Inl (ValueError ''maturity must be positive'')
      else if steps < 1 then Inl (ValueError ''steps must be at least 1'')
      else if volatility = 0 then Inl ZeroDivisionError
      else if \<not> (0 \<le> risk_neutral_prob rate dividend_yield volatility maturity steps
                 \<and> risk_neutral_prob rate dividend_yield volatility maturity steps \<le> 1)
        then Inl (ValueError ''risk-neutral probability is outside [0, 1]; adjust inputs'')
      else Inr (frontier
                  (crr_lattice spot strike rate volatility maturity steps option_type exercise
                     dividend_yield) (nat steps) (nat steps)))"
proof (cases "0 < spot \<and> 0 < strike \<and> 0 < maturity \<and> 1 \<le> steps")
  case False
  then show ?thesis
    by (auto simp: binomial_frontier_def validate_inputs_def)
next
  case True
  then have ok: "validate_inputs spot strike maturity steps = Inr ()"
    by (simp add: validate_inputs_def)
  have dt: "maturity / real_of_int steps \<noteq> 0"
    using True by simp
  have ud: "up_factor volatility maturity steps - down_factor volatility maturity steps = 0
            \<longleftrightarrow> volatility = 0"
    using up_eq_down_iff [of maturity steps volatility] True by simp
  have up: "up_factor volatility maturity steps \<noteq> 0"
    by (simp add: up_factor_def)
  show ?thesis
    unfolding binomial_frontier_def Let_def ok sum.case
    unfolding up_factor_def [symmetric]
    unfolding down_factor_def [symmetric] growth_factor_def [symmetric]
    unfolding risk_neutral_prob_def [symmetric]
    unfolding crr_lattice_def [symmetric]
    using True dt ud up
    by (simp add: backward_induction_frontier)
qed

lemma price_binomial_option_eq:
  "price_binomial_option spot strike rate volatility maturity steps option_type exercise dividend_yield =
     (if spot \<le> 0 then Inl (ValueError ''spot price must be positive'')
      else if strike \<le> 0 then Inl (ValueError ''strike price must be positive'')
      else if maturity \<le> 0 then Inl (ValueError ''maturity must be positive'')
      else if steps < 1 then Inl (ValueError ''steps must be at least 1'')
      else if volatility = 0 then Inl ZeroDivisionError
      else if \<not> (0 \<le> risk_neutral_prob rate dividend_yield volatility maturity steps
                 \<and> risk_neutral_prob rate dividend_yield volatility maturity steps \<le> 1)
        then Inl (ValueError ''risk-neutral probability is outside [0, 1]; adjust inputs'')
      else Inr (node_value
                  (crr_lattice spot strike rate volatility maturity steps option_type exercise
                     dividend_yield) (nat steps) (nat steps) 0))"
proof -
  obtain vs where
    "frontier (crr_lattice spot strike rate volatility maturity steps option_type exercise
        dividend_yield) (nat steps) (nat steps)
     = node_value (crr_lattice spot strike rate volatility maturity steps option_type exercise
        dividend_yield) (nat steps) (nat steps) 0 # vs"
    using frontier_Cons by blast
  then show ?thesis
    by (simp add: price_binomial_option_def binomial_frontier_eq)
qed

text \<open>
  The probability is in the unit interval when the drift of one step is at most the
  volatility of one step; the parameters of the scenario of the specification (spot 100,
  strike 105, rate 0.05, volatility 0.2, one year, 100 steps) are such.
\<close>

lemma risk_neutral_prob_unit_interval:
  assumes "0 < maturity" "1 \<le> steps" "0 < volatility"
    and "\<bar>(rate - dividend_yield) * (maturity / real_of_int steps)\<bar>
           \<le> volatility * sqrt (maturity / real_of_int steps)"
  shows "0 \<le> risk_neutral_prob rate dividend_yield volatility maturity steps
         \<and> risk_neutral_prob rate dividend_yield volatility maturity steps \<le> 1"
proof -
  let ?x = "volatility * sqrt (maturity / real_of_int steps)"
  let ?y = "(rate - dividend_yield) * (maturity / real_of_int steps)"
  have x: "0 < ?x" using assms by simp
  have d: "down_factor volatility maturity steps = exp (- ?x)"
    by (simp add: down_factor_def up_factor_def exp_minus inverse_eq_divide)
  have "exp (- ?x) < exp ?x" using x by simp
  then have den: "0 < exp ?x - exp (- ?x)" by simp
  have lo: "- ?x \<le> ?y" using assms(4) by (simp only: abs_le_iff) linarith
  have hi: "?y \<le> ?x" using assms(4) by (simp only: abs_le_iff)
  have "exp (- ?x) \<le> exp ?y" using lo by (simp only: exp_le_cancel_iff)
  then have num: "0 \<le> exp ?y - exp (- ?x)" by simp
  have "exp ?y \<le> exp ?x" using hi by (simp only: exp_le_cancel_iff)
  then have le: "exp ?y - exp (- ?x) \<le> exp ?x - exp (- ?x)" by simp
  have "0 \<le> (exp ?y - exp (- ?x)) / (exp ?x - exp (- ?x))"
    using num den by simp
  moreover have "(exp ?y - exp (- ?x)) / (exp ?x - exp (- ?x)) \<le> 1"
    using le den by simp
  ultimately show ?thesis
    unfolding risk_neutral_prob_def d growth_factor_def up_factor_def by simp
qed

lemma sqrt_hundredth: "sqrt (1 / 100) = 1 / 10"
  by (rule real_sqrt_unique) (simp_all add: power2_eq_square)

lemma scenario_prob:
  "0 \<le> risk_neutral_prob (5 / 100) 0 (2 / 10) 1 100 \<and> risk_neutral_prob (5 / 100) 0 (2 / 10) 1 100 \<le> 1"
  by (rule risk_neutral_prob_unit_interval) (simp_all add: sqrt_hundredth)

text \<open>
  C3. The claim: \<^verbatim>\<open>price_binomial_option\<close> fails with the parameter error exactly on a
  non-positive spot, strike or maturity or on fewer than one step; on the other inputs
  it fails with the model error exactly when the risk-neutral probability is outside
  [0, 1]; and on every remaining input, a volatility of zero included, it returns a
  value and fails in no other way. At a volatility of zero the up and down factors are
  both 1 and the division by \<open>up - down\<close> raises \<^verbatim>\<open>ZeroDivisionError\<close>: the call below
  passes every parameter check and ends in neither a value nor one of the two
  documented errors.
\<close>

theorem price_binomial_option_zero_volatility:
  "price_binomial_option 100 105 (5 / 100) 0 1 100 ''call'' ''european'' 0 = Inl ZeroDivisionError"
  by (simp add: price_binomial_option_def binomial_frontier_def validate_inputs_def)

section \<open>The European price in closed form\<close>

text \<open>
  One step of Pascal's rule for weighted sums, and with it the value of a European node
  \<open>k\<close> steps before maturity as a binomial sum over the terminal values.
\<close>

lemma binom_weight_0: "binom_weight a b k 0 = b ^ k"
  by (simp add: binom_weight_def)

lemma binom_weight_over: "k < j \<Longrightarrow> binom_weight a b k j = 0"
  by (simp add: binom_weight_def)

lemma binom_weight_Suc_Suc:
  "binom_weight a b (Suc k) (Suc j) = a * binom_weight a b k j + b * binom_weight a b k (Suc j)"
proof (cases "j < k")
  case True
  then have "Suc (k - Suc j) = k - j" by simp
  then have "b * b ^ (k - Suc j) = b ^ (k - j)" by (metis power_Suc)
  then show ?thesis
    by (simp add: binom_weight_def algebra_simps)
next
  case False
  then have "k choose Suc j = 0" by (simp add: binomial_eq_0)
  then show ?thesis
    by (simp add: binom_weight_def algebra_simps)
qed

lemma binom_sum_extend:
  "(\<Sum>j\<le>Suc k. binom_weight a b k j * f j) = (\<Sum>j\<le>k. binom_weight a b k j * f j)"
  by (simp add: binom_weight_over)

lemma binom_sum_step:
  "(\<Sum>j\<le>Suc k. binom_weight a b (Suc k) j * f j) =
     a * (\<Sum>j\<le>k. binom_weight a b k j * f (Suc j)) + b * (\<Sum>j\<le>k. binom_weight a b k j * f j)"
proof -
  have "(\<Sum>j\<le>Suc k. binom_weight a b (Suc k) j * f j)
        = b ^ Suc k * f 0 + (\<Sum>j\<le>k. binom_weight a b (Suc k) (Suc j) * f (Suc j))"
    by (simp only: sum.atMost_Suc_shift binom_weight_0)
  also have "(\<Sum>j\<le>k. binom_weight a b (Suc k) (Suc j) * f (Suc j))
        = a * (\<Sum>j\<le>k. binom_weight a b k j * f (Suc j))
          + b * (\<Sum>j\<le>k. binom_weight a b k (Suc j) * f (Suc j))"
    by (simp add: binom_weight_Suc_Suc sum_distrib_left sum.distrib algebra_simps)
  also have "b ^ Suc k * f 0 + (a * (\<Sum>j\<le>k. binom_weight a b k j * f (Suc j))
          + b * (\<Sum>j\<le>k. binom_weight a b k (Suc j) * f (Suc j)))
        = a * (\<Sum>j\<le>k. binom_weight a b k j * f (Suc j))
          + b * (binom_weight a b k 0 * f 0 + (\<Sum>j\<le>k. binom_weight a b k (Suc j) * f (Suc j)))"
    by (simp add: binom_weight_0 algebra_simps)
  also have "binom_weight a b k 0 * f 0 + (\<Sum>j\<le>k. binom_weight a b k (Suc j) * f (Suc j))
        = (\<Sum>j\<le>Suc k. binom_weight a b k j * f j)"
    by (simp only: sum.atMost_Suc_shift)
  finally show ?thesis
    by (simp only: binom_sum_extend)
qed

lemma node_value_european:
  "\<not> l_american L \<Longrightarrow>
   node_value L N k i =
     l_discount L ^ k *
       (\<Sum>j\<le>k. binom_weight (l_prob_up L) (1 - l_prob_up L) k j * node_value L N 0 (i + j))"
proof (induction k arbitrary: i)
  case 0
  then show ?case by (simp add: binom_weight_def)
next
  case (Suc k)
  let ?p = "l_prob_up L" and ?d = "l_discount L"
  let ?S = "\<lambda>i. (\<Sum>j\<le>k. binom_weight ?p (1 - ?p) k j * node_value L N 0 (i + j))"
  have "node_value L N (Suc k) i = ?d * (?p * node_value L N k (i + 1) + (1 - ?p) * node_value L N k i)"
    using Suc.prems by (simp add: Let_def)
  also have "\<dots> = ?d * (?p * (?d ^ k * ?S (i + 1)) + (1 - ?p) * (?d ^ k * ?S i))"
    using Suc.IH [OF Suc.prems] by simp
  also have "\<dots> = ?d ^ Suc k * (?p * ?S (i + 1) + (1 - ?p) * ?S i)"
    by (simp add: algebra_simps)
  also have "?p * ?S (i + 1) + (1 - ?p) * ?S i
        = (\<Sum>j\<le>Suc k. binom_weight ?p (1 - ?p) (Suc k) j * node_value L N 0 (i + j))"
    using binom_sum_step [of ?p "1 - ?p" k "\<lambda>j. node_value L N 0 (i + j)"] by simp
  finally show ?case .
qed

lemma discount_power:
  assumes "1 \<le> steps"
  shows "exp (- rate * (maturity / real_of_int steps)) ^ nat steps = exp (- rate * maturity)"
proof -
  have "real (nat steps) = real_of_int steps"
    using assms by simp
  then have "real (nat steps) * (- rate * (maturity / real_of_int steps)) = - rate * maturity"
    using assms by simp
  then show ?thesis
    by (metis exp_of_nat_mult)
qed

text \<open>
  C1. For every valid parameter set (positive spot, strike and maturity, at least one
  step, and a risk-neutral probability \<open>p = (g - d)/(u - d)\<close> in [0, 1], which
  presupposes \<open>u \<noteq> d\<close>, that is a volatility other than zero),
  \<^verbatim>\<open>price_binomial_option\<close> with \<^verbatim>\<open>exercise="european"\<close> returns the discounted
  expectation over the terminal binomial distribution:
  \<open>exp(-r T) \<Sum>\<^sub>i C(N, i) p\<^sup>i (1 - p)\<^bsup>N - i\<^esup> payoff(S\<^sub>0 u\<^sup>i d\<^bsup>N - i\<^esup>)\<close>, the sum over
  \<open>i = 0, \<dots>, N\<close>.
\<close>

theorem european_price_closed_form:
  assumes "0 < spot" "0 < strike" "0 < maturity" "1 \<le> steps" "volatility \<noteq> 0"
    and "0 \<le> risk_neutral_prob rate dividend_yield volatility maturity steps"
    and "risk_neutral_prob rate dividend_yield volatility maturity steps \<le> 1"
  shows "price_binomial_option spot strike rate volatility maturity steps option_type ''european''
           dividend_yield =
         Inr (exp (- rate * maturity) *
              (\<Sum>i\<le>nat steps.
                 real (nat steps choose i)
                 * risk_neutral_prob rate dividend_yield volatility maturity steps ^ i
                 * (1 - risk_neutral_prob rate dividend_yield volatility maturity steps) ^ (nat steps - i)
                 * intrinsic option_type
                     (spot * up_factor volatility maturity steps ^ i
                           * down_factor volatility maturity steps ^ (nat steps - i)) strike))"
proof -
  let ?L = "crr_lattice spot strike rate volatility maturity steps option_type ''european''
              dividend_yield"
  have eur: "\<not> l_american ?L"
    by (simp add: crr_lattice_def)
  have "price_binomial_option spot strike rate volatility maturity steps option_type ''european''
          dividend_yield = Inr (node_value ?L (nat steps) (nat steps) 0)"
    using assms by (simp add: price_binomial_option_eq)
  also have "node_value ?L (nat steps) (nat steps) 0 =
      l_discount ?L ^ nat steps *
        (\<Sum>j\<le>nat steps. binom_weight (l_prob_up ?L) (1 - l_prob_up ?L) (nat steps) j
                          * node_value ?L (nat steps) 0 (0 + j))"
    by (rule node_value_european [OF eur])
  also have "l_discount ?L ^ nat steps = exp (- rate * maturity)"
    using discount_power [OF assms(4)] by (simp add: crr_lattice_def)
  finally show ?thesis
    by (simp add: binom_weight_def crr_lattice_def)
qed

text \<open>The theorem at the scenario of the specification.\<close>

theorem european_price_closed_form_witness:
  "(0::real) < 100 \<and> (0::real) < 105 \<and> (0::real) < 1 \<and> (1::int) \<le> 100 \<and> (2 / 10 :: real) \<noteq> 0
   \<and> 0 \<le> risk_neutral_prob (5 / 100) 0 (2 / 10) 1 100
   \<and> risk_neutral_prob (5 / 100) 0 (2 / 10) 1 100 \<le> 1
   \<and> price_binomial_option 100 105 (5 / 100) (2 / 10) 1 100 ''call'' ''european'' 0 =
       Inr (exp (- (5 / 100) * 1) *
            (\<Sum>i\<le>nat 100.
               real (nat 100 choose i)
               * risk_neutral_prob (5 / 100) 0 (2 / 10) 1 100 ^ i
               * (1 - risk_neutral_prob (5 / 100) 0 (2 / 10) 1 100) ^ (nat 100 - i)
               * intrinsic ''call''
                   (100 * up_factor (2 / 10) 1 100 ^ i * down_factor (2 / 10) 1 100 ^ (nat 100 - i))
                   105))"
proof -
  have h: "(0::real) < 100" "(0::real) < 105" "(0::real) < 1" "(1::int) \<le> 100" "(2 / 10 :: real) \<noteq> 0"
    by simp_all
  have p: "0 \<le> risk_neutral_prob (5 / 100) 0 (2 / 10) 1 100"
    "risk_neutral_prob (5 / 100) 0 (2 / 10) 1 100 \<le> 1"
    using scenario_prob by simp_all
  show ?thesis
    using h p european_price_closed_form [OF h p, of "''call''"] by blast
qed

section \<open>American against European exercise\<close>

text \<open>
  With a probability in [0, 1] and a non-negative discount factor the backward step is
  monotone, and taking the maximum with the intrinsic value can only raise a node.
\<close>

lemma node_value_american_ge:
  assumes "0 \<le> l_prob_up L" "l_prob_up L \<le> 1" "0 \<le> l_discount L"
  shows "node_value (L\<lparr>l_american := False\<rparr>) N k i \<le> node_value (L\<lparr>l_american := True\<rparr>) N k i"
proof (induction k arbitrary: i)
  case 0
  then show ?case by simp
next
  case (Suc k)
  let ?E = "L\<lparr>l_american := False\<rparr>" and ?A = "L\<lparr>l_american := True\<rparr>"
  have up: "l_prob_up L * node_value ?E N k (i + 1) \<le> l_prob_up L * node_value ?A N k (i + 1)"
    by (rule mult_left_mono [OF Suc.IH assms(1)])
  have "0 \<le> 1 - l_prob_up L"
    using assms(2) by simp
  then have dn: "(1 - l_prob_up L) * node_value ?E N k i \<le> (1 - l_prob_up L) * node_value ?A N k i"
    by (rule mult_left_mono [OF Suc.IH])
  have "l_discount L * (l_prob_up L * node_value ?E N k (i + 1) + (1 - l_prob_up L) * node_value ?E N k i)
      \<le> l_discount L * (l_prob_up L * node_value ?A N k (i + 1) + (1 - l_prob_up L) * node_value ?A N k i)"
    by (rule mult_left_mono [OF add_mono [OF up dn] assms(3)])
  then show ?case by (simp add: Let_def)
qed

text \<open>
  C5. For every parameter set that \<^verbatim>\<open>price_binomial_option\<close> accepts, the price with
  \<^verbatim>\<open>exercise="american"\<close> is at least the price with \<^verbatim>\<open>exercise="european"\<close>, all
  other arguments being the same: where the European call returns a value, the American
  call returns one too, and it is not smaller.
\<close>

theorem american_price_ge_european:
  assumes "price_binomial_option spot strike rate volatility maturity steps option_type ''european''
             dividend_yield = Inr e"
  shows "\<exists>a. price_binomial_option spot strike rate volatility maturity steps option_type ''american''
               dividend_yield = Inr a \<and> e \<le> a"
proof -
  let ?L = "crr_lattice spot strike rate volatility maturity steps option_type ''european''
              dividend_yield"
  let ?p = "risk_neutral_prob rate dividend_yield volatility maturity steps"
  from assms have ok: "0 < spot" "0 < strike" "0 < maturity" "1 \<le> steps" "volatility \<noteq> 0"
      "0 \<le> ?p" "?p \<le> 1"
    and e: "e = node_value ?L (nat steps) (nat steps) 0"
    by (auto simp: price_binomial_option_eq split: if_splits)
  have A: "crr_lattice spot strike rate volatility maturity steps option_type ''american''
             dividend_yield = ?L\<lparr>l_american := True\<rparr>"
    and E: "?L = ?L\<lparr>l_american := False\<rparr>"
    by (simp_all add: crr_lattice_def)
  have "node_value (?L\<lparr>l_american := False\<rparr>) (nat steps) (nat steps) 0
        \<le> node_value (?L\<lparr>l_american := True\<rparr>) (nat steps) (nat steps) 0"
    by (rule node_value_american_ge) (use ok in \<open>simp_all add: crr_lattice_def\<close>)
  then have "e \<le> node_value (?L\<lparr>l_american := True\<rparr>) (nat steps) (nat steps) 0"
    using e E by simp
  moreover have "price_binomial_option spot strike rate volatility maturity steps option_type
      ''american'' dividend_yield = Inr (node_value (?L\<lparr>l_american := True\<rparr>) (nat steps) (nat steps) 0)"
    using ok by (simp add: price_binomial_option_eq A)
  ultimately show ?thesis by blast
qed

text \<open>The theorem for the put of the scenario.\<close>

theorem american_price_ge_european_witness:
  "price_binomial_option 100 105 (5 / 100) (2 / 10) 1 100 ''put'' ''european'' 0
     = Inr (node_value (crr_lattice 100 105 (5 / 100) (2 / 10) 1 100 ''put'' ''european'' 0) 100 100 0)
   \<and> (\<exists>a. price_binomial_option 100 105 (5 / 100) (2 / 10) 1 100 ''put'' ''american'' 0 = Inr a
          \<and> node_value (crr_lattice 100 105 (5 / 100) (2 / 10) 1 100 ''put'' ''european'' 0) 100 100 0
              \<le> a)"
proof -
  have e: "price_binomial_option 100 105 (5 / 100) (2 / 10) 1 100 ''put'' ''european'' 0
     = Inr (node_value (crr_lattice 100 105 (5 / 100) (2 / 10) 1 100 ''put'' ''european'' 0) 100 100 0)"
    using scenario_prob by (simp add: price_binomial_option_eq)
  show ?thesis
    using e american_price_ge_european [OF e] by blast
qed

section \<open>The payoff array during the backward pass\<close>

text \<open>
  C6, as the code has it. The backward pass never removes an element of \<^verbatim>\<open>payoffs\<close>:
  after any number \<open>k \<le> N\<close> of time steps the array still has \<open>N + 1\<close> elements, so
  memory is linear in \<open>N\<close>. The step at \<open>s = N - k\<close> has overwritten the entries
  \<open>0, \<dots>, s\<close> with the values of the nodes of step \<open>s\<close>; an entry \<open>i > s\<close> keeps the
  value of node \<open>(i, i)\<close> that step \<open>i\<close> left there (the terminal value for \<open>i = N\<close>).
  The price is entry 0 after the last step.
\<close>

theorem payoff_array_keeps_length:
  assumes "k \<le> N"
  shows "\<exists>ys. backward_pass_prefix L N k (terminal_payoffs L N) = Inr ys
            \<and> length ys = N + 1
            \<and> (\<forall>i. i \<le> N - k \<longrightarrow> ys ! i = node_value L N k i)
            \<and> (\<forall>i. N - k < i \<and> i \<le> N \<longrightarrow> ys ! i = node_value L N (N - i) i)"
proof -
  have "backward_pass_prefix L N k (terminal_payoffs L N) = Inr (frontier L N k)"
    unfolding backward_pass_prefix_def using assms by (rule backward_pass_frontier)
  moreover have "length (frontier L N k) = N + 1"
    by (rule length_frontier)
  moreover have "\<forall>i. i \<le> N - k \<longrightarrow> frontier L N k ! i = node_value L N k i"
  proof (intro allI impI)
    fix i assume "i \<le> N - k"
    then have "i \<le> N" "min k (N - i) = k" using assms by auto
    then show "frontier L N k ! i = node_value L N k i"
      by (simp add: nth_frontier)
  qed
  moreover have "\<forall>i. N - k < i \<and> i \<le> N \<longrightarrow> frontier L N k ! i = node_value L N (N - i) i"
  proof (intro allI impI)
    fix i assume "N - k < i \<and> i \<le> N"
    then have "i \<le> N" "min k (N - i) = N - i" by auto
    then show "frontier L N k ! i = node_value L N (N - i) i"
      by (simp add: nth_frontier)
  qed
  ultimately show ?thesis by blast
qed

text \<open>The theorem for the lattice of the scenario, after all 100 time steps.\<close>

theorem payoff_array_keeps_length_witness:
  "(100::nat) \<le> 100
   \<and> (\<exists>ys. backward_pass_prefix (crr_lattice 100 105 (5 / 100) (2 / 10) 1 100 ''call'' ''european'' 0)
              100 100
              (terminal_payoffs (crr_lattice 100 105 (5 / 100) (2 / 10) 1 100 ''call'' ''european'' 0) 100)
            = Inr ys
          \<and> length ys = 101)"
proof -
  have h: "(100::nat) \<le> 100" by simp
  show ?thesis
    using h payoff_array_keeps_length [OF h,
      of "crr_lattice 100 105 (5 / 100) (2 / 10) 1 100 ''call'' ''european'' 0"]
    by auto
qed

text \<open>
  C6, as the claim states it: the array shrinks by one element each step and only the
  root value remains at the end. For the scenario the array that the backward pass
  leaves has 101 elements, not one.
\<close>

theorem payoff_array_shrinks_counterexample:
  "map_sum (\<lambda>e. e) length
     (binomial_frontier 100 105 (5 / 100) (2 / 10) 1 100 ''call'' ''european'' 0) = Inr 101"
  using scenario_prob by (simp add: binomial_frontier_eq length_frontier)

section \<open>The simulated paths\<close>

text \<open>
  A path of \<^verbatim>\<open>_simulate_path\<close> is the closed-form path of the next \<open>N\<close> variates of
  the generator, and the generator is left \<open>N\<close> draws further.
\<close>

lemma draws_add:
  "draws nv (m + n) g = draws nv m g @ draws nv n (advance nv m g)"
  by (induction m arbitrary: g) (auto split: prod.splits)

lemma advance_add: "advance nv (m + n) g = advance nv n (advance nv m g)"
  by (induction m arbitrary: g) auto

lemma length_draws: "length (draws nv n g) = n"
  by (induction n arbitrary: g) (auto split: prod.splits)

lemma gbm_path_Nil: "gbm_path spot drift diffusion [] = [spot]"
  by (simp add: gbm_path_def)

lemma gbm_path_Cons:
  "gbm_path spot drift diffusion (z # zs) =
     spot # gbm_path (spot * exp (drift + diffusion * z)) drift diffusion zs"
proof -
  have "[0..<length (z # zs) + 1] = 0 # map Suc [0..<length zs + 1]"
    by (simp add: upt_conv_Cons map_Suc_upt del: upt_Suc)
  then show ?thesis
    by (simp add: gbm_path_def o_def mult.assoc del: upt_Suc)
qed

lemma gbm_path_hd_tl:
  "gbm_path spot drift diffusion zs = spot # tl (gbm_path spot drift diffusion zs)"
  by (cases zs) (simp_all add: gbm_path_Nil gbm_path_Cons)

lemma simulate_steps_eq:
  "simulate_steps nv drift diffusion n current g =
     (tl (gbm_path current drift diffusion (draws nv n g)), advance nv n g)"
proof (induction n arbitrary: current g)
  case 0
  then show ?case by (simp add: gbm_path_Nil)
next
  case (Suc n)
  obtain z g' where zg: "nv g = (z, g')" by (cases "nv g")
  have "gbm_path (current * exp (drift + diffusion * z)) drift diffusion (draws nv n g')
        = current * exp (drift + diffusion * z)
          # tl (gbm_path (current * exp (drift + diffusion * z)) drift diffusion (draws nv n g'))"
    by (rule gbm_path_hd_tl)
  then show ?case
    by (simp add: zg Suc.IH gbm_path_Cons)
qed

lemma length_gbm_path: "length (gbm_path spot drift diffusion zs) = length zs + 1"
  by (simp add: gbm_path_def)

lemma gbm_path_nth:
  "k \<le> length zs \<Longrightarrow>
   gbm_path spot drift diffusion zs ! k
     = spot * prod_list (map (\<lambda>z. exp (drift + diffusion * z)) (take k zs))"
  unfolding gbm_path_def by (subst nth_map) (simp_all del: upt_Suc)

lemma gbm_path_first: "gbm_path spot drift diffusion zs ! 0 = spot"
  by (simp add: gbm_path_nth)

lemma gbm_path_step:
  assumes "k < length zs"
  shows "gbm_path spot drift diffusion zs ! (k + 1)
         = gbm_path spot drift diffusion zs ! k * exp (drift + diffusion * zs ! k)"
  using assms by (simp add: gbm_path_nth take_Suc_conv_app_nth)

lemma trial_draws_eq:
  assumes "j < M"
  shows "trial_draws nv N M g j = draws nv N (advance nv (j * N) g)"
proof -
  obtain r where M: "M = j + 1 + r"
    using assms less_iff_Suc_add [of j M] by auto
  have "M * N = j * N + (N + r * N)"
    by (simp add: M algebra_simps)
  then have "draws nv (M * N) g
      = draws nv (j * N) g @ draws nv N (advance nv (j * N) g)
        @ draws nv (r * N) (advance nv N (advance nv (j * N) g))"
    by (simp add: draws_add)
  then show ?thesis
    by (simp add: trial_draws_def length_draws)
qed

lemma length_trial_draws: "j < M \<Longrightarrow> length (trial_draws nv N M g j) = N"
  by (simp add: trial_draws_eq length_draws)

lemma simulate_path_eq:
  assumes "0 < maturity" "1 \<le> steps"
  shows "simulate_path nv spot rate volatility dividend_yield maturity steps g =
     Inr (gbm_path spot (mc_drift rate dividend_yield volatility maturity steps)
            (mc_diffusion volatility maturity steps) (draws nv (nat steps) g),
          advance nv (nat steps) g)"
proof -
  have dt: "\<not> maturity / real_of_int steps < 0" "steps \<noteq> 0"
    using assms by (simp_all add: not_less)
  show ?thesis
    unfolding simulate_path_def Let_def mc_drift_def [symmetric] mc_diffusion_def [symmetric]
    using dt by (simp add: simulate_steps_eq gbm_path_hd_tl [symmetric])
qed

section \<open>The Monte Carlo estimate\<close>

text \<open>The trials consume the variates block by block.\<close>

lemma mc_trials_eq:
  assumes "\<And>g. simulate g = Inr (path_of g, advance nv N g)"
  shows "mc_trials simulate (\<lambda>path. Inr (f path)) M g =
     Inr (map (\<lambda>j. f (path_of (advance nv (j * N) g))) [0..<M], advance nv (M * N) g)"
proof (induction M arbitrary: g)
  case 0
  then show ?case by simp
next
  case (Suc M)
  have up: "[0..<Suc M] = 0 # map Suc [0..<M]"
    by (simp add: upt_conv_Cons map_Suc_upt del: upt_Suc)
  have adv: "\<And>j. advance nv (j * N) (advance nv N g) = advance nv (N + j * N) g"
    by (simp add: advance_add)
  have "mc_trials simulate (\<lambda>path. Inr (f path)) (Suc M) g =
      (case mc_trials simulate (\<lambda>path. Inr (f path)) M (advance nv N g) of
         Inl e \<Rightarrow> Inl e
       | Inr (payoffs, rng'') \<Rightarrow> Inr (f (path_of g) # payoffs, rng''))"
    by (simp add: assms [of g])
  then show ?case
    by (simp add: Suc.IH up adv o_def del: upt_Suc)
qed

lemma sum_list_map_upt_lessThan: "sum_list (map h [0..<M]) = (\<Sum>j<M. h j)"
  by (induction M) simp_all

lemma mc_trials_paths:
  assumes "0 < maturity" "1 \<le> steps"
  shows "mc_trials (simulate_path nv spot rate volatility dividend_yield maturity steps)
           (\<lambda>path. Inr (f path)) M g =
         Inr (map (\<lambda>j. f (trial_path nv spot rate dividend_yield volatility maturity steps (int M) g j))
                [0..<M],
              advance nv (M * nat steps) g)"
proof -
  let ?path_of = "\<lambda>g. gbm_path spot (mc_drift rate dividend_yield volatility maturity steps)
            (mc_diffusion volatility maturity steps) (draws nv (nat steps) g)"
  have "mc_trials (simulate_path nv spot rate volatility dividend_yield maturity steps)
           (\<lambda>path. Inr (f path)) M g =
         Inr (map (\<lambda>j. f (?path_of (advance nv (j * nat steps) g))) [0..<M],
              advance nv (M * nat steps) g)"
    by (rule mc_trials_eq) (rule simulate_path_eq [OF assms])
  moreover have "map (\<lambda>j. f (?path_of (advance nv (j * nat steps) g))) [0..<M]
      = map (\<lambda>j. f (trial_path nv spot rate dividend_yield volatility maturity steps (int M) g j)) [0..<M]"
    by (rule map_cong) (simp_all add: trial_path_def trial_draws_eq)
  ultimately show ?thesis by simp
qed

text \<open>
  C2. For every valid input (positive spot and maturity, non-negative volatility, at
  least one step and one path) and every payoff function \<open>f\<close>,
  \<^verbatim>\<open>price_monte_carlo_option\<close> returns \<open>exp(-r T)\<close> times the sum of the payoffs of the
  \<open>M\<close> paths divided by \<open>M\<close>. Path \<open>j\<close> has \<open>N + 1\<close> entries, starts at the spot, and
  each step multiplies the price by \<open>exp(drift + diffusion z)\<close> with
  \<open>drift = (r - q - \<sigma>\<^sup>2/2) T/N\<close>, \<open>diffusion = \<sigma>\<surd>(T/N)\<close> and \<open>z\<close> the next variate of
  the generator: trial \<open>j\<close> uses the \<open>j\<close>-th block of \<open>N\<close> variates. That the variates
  are independent and standard normal is a property of Python's generator and is not
  part of the statement.
\<close>

theorem monte_carlo_price_discounted_mean:
  assumes "0 < spot" "0 \<le> volatility" "0 < maturity" "1 \<le> steps" "1 \<le> paths"
  shows "price_monte_carlo_option Random entropy normalvariate
           spot rate volatility maturity steps paths (\<lambda>path. Inr (f path)) dividend_yield seed =
         Inr (exp (- rate * maturity) *
              ((\<Sum>j<nat paths.
                  f (trial_path normalvariate spot rate dividend_yield volatility maturity steps paths
                       (initial_rng Random entropy seed) j))
               / real_of_int paths))
       \<and> (\<forall>j<nat paths.
            length (trial_path normalvariate spot rate dividend_yield volatility maturity steps paths
                      (initial_rng Random entropy seed) j) = nat steps + 1
          \<and> trial_path normalvariate spot rate dividend_yield volatility maturity steps paths
                      (initial_rng Random entropy seed) j ! 0 = spot
          \<and> (\<forall>k<nat steps.
                trial_path normalvariate spot rate dividend_yield volatility maturity steps paths
                      (initial_rng Random entropy seed) j ! (k + 1)
                = trial_path normalvariate spot rate dividend_yield volatility maturity steps paths
                      (initial_rng Random entropy seed) j ! k
                  * exp (mc_drift rate dividend_yield volatility maturity steps
                         + mc_diffusion volatility maturity steps
                           * trial_draws normalvariate (nat steps) (nat paths)
                               (initial_rng Random entropy seed) j ! k)))"
proof (intro conjI allI impI)
  have ok: "mc_validate_inputs spot volatility maturity steps paths = Inr ()"
    using assms by (simp add: mc_validate_inputs_def)
  have M: "int (nat paths) = paths" "real (nat paths) = real_of_int paths" "nat paths \<noteq> 0"
    using assms(5) by simp_all
  show "price_monte_carlo_option Random entropy normalvariate
           spot rate volatility maturity steps paths (\<lambda>path. Inr (f path)) dividend_yield seed =
         Inr (exp (- rate * maturity) *
              ((\<Sum>j<nat paths.
                  f (trial_path normalvariate spot rate dividend_yield volatility maturity steps paths
                       (initial_rng Random entropy seed) j))
               / real_of_int paths))"
    unfolding price_monte_carlo_option_def ok Let_def initial_rng_def [symmetric]
    using M by (simp add: mc_trials_paths [OF assms(3,4)] sum_list_map_upt_lessThan)
next
  fix j assume j: "j < nat paths"
  then have len: "length (trial_draws normalvariate (nat steps) (nat paths)
                    (initial_rng Random entropy seed) j) = nat steps"
    by (rule length_trial_draws)
  show "length (trial_path normalvariate spot rate dividend_yield volatility maturity steps paths
                      (initial_rng Random entropy seed) j) = nat steps + 1"
    by (simp add: trial_path_def length_gbm_path len)
  show "trial_path normalvariate spot rate dividend_yield volatility maturity steps paths
                      (initial_rng Random entropy seed) j ! 0 = spot"
    by (simp add: trial_path_def gbm_path_first)
  fix k assume "k < nat steps"
  then show "trial_path normalvariate spot rate dividend_yield volatility maturity steps paths
                      (initial_rng Random entropy seed) j ! (k + 1)
                = trial_path normalvariate spot rate dividend_yield volatility maturity steps paths
                      (initial_rng Random entropy seed) j ! k
                  * exp (mc_drift rate dividend_yield volatility maturity steps
                         + mc_diffusion volatility maturity steps
                           * trial_draws normalvariate (nat steps) (nat paths)
                               (initial_rng Random entropy seed) j ! k)"
    unfolding trial_path_def using len by (intro gbm_path_step) simp
qed

text \<open>
  The theorem at the Monte Carlo scenario of the specification (50 steps, 50000 paths,
  seed 42, a call struck at 100), with a counter standing in for the generator.
\<close>

theorem monte_carlo_price_discounted_mean_witness:
  "(0::real) < 100 \<and> (0::real) \<le> 2 / 10 \<and> (0::real) < 1 \<and> (1::int) \<le> 50 \<and> (1::int) \<le> 50000
   \<and> price_monte_carlo_option nat (0::nat) (\<lambda>g. (real g / 10, Suc g))
         100 (5 / 100) (2 / 10) 1 50 50000 (\<lambda>path. Inr (max (last path - 100) 0)) 0 (Some 42) =
       Inr (exp (- (5 / 100) * 1) *
            ((\<Sum>j<nat 50000.
                max (last (trial_path (\<lambda>g. (real g / 10, Suc g)) 100 (5 / 100) 0 (2 / 10) 1 50 50000
                             (initial_rng nat (0::nat) (Some 42)) j) - 100) 0)
             / real_of_int 50000))"
proof -
  have h: "(0::real) < 100" "(0::real) \<le> 2 / 10" "(0::real) < 1" "(1::int) \<le> 50"
    "(1::int) \<le> 50000"
    by simp_all
  show ?thesis
    using h monte_carlo_price_discounted_mean [OF h, of nat "0::nat" "\<lambda>g. (real g / 10, Suc g)"
        "5 / 100" "\<lambda>path. max (last path - 100) 0" 0 "Some 42"]
    by blast
qed

text \<open>
  C8. With a seed, two calls of \<^verbatim>\<open>price_monte_carlo_option\<close> with the same
  parameters and payoff return the same value: the generator is built from the seed
  alone, so the result does not depend on the state \<open>entropy\<close> an unseeded generator
  would have started from, whatever that state is in either call. By the theorem of C2
  the variates used are the first \<open>M N\<close> of the generator \<open>Random seed\<close>.
\<close>

theorem seeded_price_reproducible:
  "price_monte_carlo_option Random entropy normalvariate
       spot rate volatility maturity steps paths payoff dividend_yield (Some seed)
   = price_monte_carlo_option Random entropy' normalvariate
       spot rate volatility maturity steps paths payoff dividend_yield (Some seed)"
  by (simp only: price_monte_carlo_option_def option.case)

text \<open>
  Without a seed the result does depend on the state the generator starts from: one
  path of one step, with a counter standing in for the generator.
\<close>

lemma unseeded_price_depends_on_entropy:
  "price_monte_carlo_option nat (0::nat) (\<lambda>g. (real g, Suc g))
       100 0 1 1 1 1 (\<lambda>path. Inr (last path)) 0 None
   \<noteq> price_monte_carlo_option nat (1::nat) (\<lambda>g. (real g, Suc g))
       100 0 1 1 1 1 (\<lambda>path. Inr (last path)) 0 None"
  by (simp add: price_monte_carlo_option_def mc_validate_inputs_def simulate_path_def)

section \<open>Zero volatility\<close>

text \<open>
  Without diffusion every factor of a path is \<open>exp(drift)\<close>, whatever the variates are,
  and all trials see the same path.
\<close>

lemma gbm_path_zero_diffusion:
  "gbm_path spot drift 0 zs = map (\<lambda>k. spot * exp (real k * drift)) [0..<length zs + 1]"
proof -
  have "\<And>k. k \<le> length zs \<Longrightarrow>
          prod_list (map (\<lambda>z. exp (drift + 0 * z)) (take k zs)) = exp (real k * drift)"
  proof -
    fix k assume k: "k \<le> length zs"
    have "map (\<lambda>z. exp (drift + 0 * z)) (take k zs) = replicate k (exp drift)"
      using k by (simp add: map_replicate_const)
    then show "prod_list (map (\<lambda>z. exp (drift + 0 * z)) (take k zs)) = exp (real k * drift)"
      by (simp add: prod_list_replicate exp_of_nat_mult)
  qed
  then show ?thesis
    unfolding gbm_path_def by (intro map_cong) (simp_all del: upt_Suc)
qed

lemma simulate_path_zero_volatility:
  assumes "0 < maturity" "1 \<le> steps"
  shows "simulate_path nv spot rate 0 dividend_yield maturity steps g =
           Inr (forward_path spot rate dividend_yield maturity steps, advance nv (nat steps) g)"
proof -
  have "gbm_path spot (mc_drift rate dividend_yield 0 maturity steps) (mc_diffusion 0 maturity steps)
          (draws nv (nat steps) g)
        = forward_path spot rate dividend_yield maturity steps"
    by (simp add: mc_diffusion_def gbm_path_zero_diffusion length_draws forward_path_def
        mc_drift_def algebra_simps del: upt_Suc)
  then show ?thesis
    using simulate_path_eq [OF assms, of nv spot rate 0 dividend_yield g] by simp
qed

lemma mc_trials_constant_value:
  assumes "\<And>g. simulate g = Inr (p, next_rng g)" and "payoff p = Inr v"
  shows "mc_trials simulate payoff M g = Inr (replicate M v, (next_rng ^^ M) g)"
proof (induction M arbitrary: g)
  case 0
  show ?case by simp
next
  case (Suc M)
  show ?case
    by (simp add: assms(1) [of g] assms(2) Suc.IH funpow_swap1)
qed

lemma mc_trials_constant_error:
  assumes "\<And>g. simulate g = Inr (p, next_rng g)" and "payoff p = Inl e"
  shows "mc_trials simulate payoff (Suc M) g = Inl e"
  by (simp add: assms(1) [of g] assms(2))

text \<open>
  C9. With a volatility of zero and otherwise valid inputs, every path that
  \<^verbatim>\<open>price_monte_carlo_option\<close> simulates is the deterministic forward price at every
  step, \<open>path[k] = S\<^sub>0 exp((r - q) k T/N)\<close> for \<open>k = 0, \<dots>, N\<close>, from any generator
  state; and the returned price is the discounted payoff of that one path (or the
  payoff's exception), an expression in which neither the seed nor the generator
  occurs: the price is the same for all seeds.
\<close>

theorem zero_volatility_forward_price:
  assumes "0 < spot" "0 < maturity" "1 \<le> steps" "1 \<le> paths"
  shows "(\<exists>rng'. simulate_path normalvariate spot rate 0 dividend_yield maturity steps rng =
             Inr (forward_path spot rate dividend_yield maturity steps, rng'))
       \<and> price_monte_carlo_option Random entropy normalvariate
             spot rate 0 maturity steps paths payoff dividend_yield seed =
           (case payoff (forward_path spot rate dividend_yield maturity steps) of
              Inl e \<Rightarrow> Inl e
            | Inr v \<Rightarrow> Inr (exp (- rate * maturity) * v))"
proof
  show "\<exists>rng'. simulate_path normalvariate spot rate 0 dividend_yield maturity steps rng =
             Inr (forward_path spot rate dividend_yield maturity steps, rng')"
    by (simp add: simulate_path_zero_volatility [OF assms(2,3)])
next
  have ok: "mc_validate_inputs spot 0 maturity steps paths = Inr ()"
    using assms by (simp add: mc_validate_inputs_def)
  obtain M where M: "nat paths = Suc M"
    using assms(4) by (cases "nat paths") auto
  note sim = simulate_path_zero_volatility [OF assms(2,3), of normalvariate spot rate dividend_yield]
  show "price_monte_carlo_option Random entropy normalvariate
             spot rate 0 maturity steps paths payoff dividend_yield seed =
           (case payoff (forward_path spot rate dividend_yield maturity steps) of
              Inl e \<Rightarrow> Inl e
            | Inr v \<Rightarrow> Inr (exp (- rate * maturity) * v))"
  proof (cases "payoff (forward_path spot rate dividend_yield maturity steps)")
    case (Inl e)
    have tr: "mc_trials (simulate_path normalvariate spot rate 0 dividend_yield maturity steps)
            payoff (Suc M) g = Inl e" for g
      by (rule mc_trials_constant_error [where next_rng = "advance normalvariate (nat steps)"])
         (rule sim, rule Inl)
    show ?thesis
      unfolding price_monte_carlo_option_def ok Let_def M sum.case tr
      by (simp add: Inl)
  next
    case (Inr v)
    have tr: "mc_trials (simulate_path normalvariate spot rate 0 dividend_yield maturity steps)
            payoff (Suc M) g
          = Inr (replicate (Suc M) v, (advance normalvariate (nat steps) ^^ Suc M) g)" for g
      by (rule mc_trials_constant_value) (rule sim, rule Inr)
    have "v + real M * v = v * (1 + real M)"
      by (simp add: algebra_simps)
    moreover have "1 + real M \<noteq> 0"
      by (simp add: add_nonneg_eq_0_iff)
    ultimately have avg: "(v + real M * v) / (1 + real M) = v"
      by simp
    show ?thesis
      unfolding price_monte_carlo_option_def ok Let_def M sum.case tr
      by (simp add: Inr sum_list_replicate avg)
  qed
qed

text \<open>The theorem for a call struck at 100, 50 steps and 50000 paths.\<close>

theorem zero_volatility_forward_price_witness:
  "(0::real) < 100 \<and> (0::real) < 1 \<and> (1::int) \<le> 50 \<and> (1::int) \<le> 50000
   \<and> (\<exists>rng'. simulate_path (\<lambda>g. (real g / 10, Suc g)) 100 (5 / 100) 0 0 1 50 (42::nat) =
                Inr (forward_path 100 (5 / 100) 0 1 50, rng'))
   \<and> price_monte_carlo_option nat (0::nat) (\<lambda>g. (real g / 10, Suc g))
         100 (5 / 100) 0 1 50 50000 (\<lambda>path. Inr (max (last path - 100) 0)) 0 (Some 42) =
       Inr (exp (- (5 / 100) * 1) * max (last (forward_path 100 (5 / 100) 0 1 50) - 100) 0)"
proof -
  have h: "(0::real) < 100" "(0::real) < 1" "(1::int) \<le> 50" "(1::int) \<le> 50000"
    by simp_all
  show ?thesis
    using h zero_volatility_forward_price [OF h, of "\<lambda>g. (real g / 10, Suc g)" "5 / 100" 0 "42::nat"
        nat "0::nat" "\<lambda>path. Inr (max (last path - 100) 0)" "Some 42"]
    by (simp del: exp_le_cancel_iff)
qed

section \<open>The namespace of a payoff expression\<close>

text \<open>
  The keys of the dictionaries that the closure hands to \<^verbatim>\<open>eval\<close>: the documented
  names and, beside them, \<^verbatim>\<open>__builtins__\<close>, bound to the empty dictionary that
  removes the built-in functions.
\<close>

lemma dom_math_namespace: "dom (math_namespace math_module) = public_math_names math_module"
  by (auto simp: math_namespace_def public_math_names_def dom_map_of_conv_image_fst)

lemma dom_safe_globals:
  "dom (safe_globals math_module) =
     public_math_names math_module \<union> {''max'', ''min'', ''__builtins__''}"
  by (auto simp: safe_globals_def dom_math_namespace)

lemma local_vars_empty: "local_vars extra_context [] = Inl IndexError"
  by (simp add: local_vars_def)

lemma dom_local_vars:
  "local_vars extra_context path = Inr ns \<Longrightarrow> dom ns = path_names \<union> dom extra_context"
  by (auto simp: local_vars_def path_names_def dom_def map_add_def split: option.splits if_splits)

lemma builtins_not_public: "''__builtins__'' \<notin> public_math_names math_module"
  by (simp add: public_math_names_def is_private_def)

lemma bound_names:
  assumes "local_vars extra_context path = Inr ns"
  shows "dom ns \<union> dom (safe_globals math_module) =
           documented_names math_module extra_context \<union> {''__builtins__''}"
  unfolding documented_names_def dom_safe_globals dom_local_vars [OF assms] by blast

lemma safe_globals_builtins: "safe_globals math_module ''__builtins__'' = Some (PyDict [])"
  by (simp add: safe_globals_def)

lemma expression_payoff_empty_path:
  "expression_payoff py math_module code extra_context [] = (Inl IndexError, [])"
  by (simp add: expression_payoff_def local_vars_empty)

text \<open>
  C4. The claim: for every payoff expression, the function that
  \<^verbatim>\<open>build_expression_payoff\<close> returns evaluates it in a namespace of the documented
  names only, and the evaluation can never leave that namespace to perform I/O, import
  modules or reach the process that hosts it. The code hands the compiled expression to
  \<^verbatim>\<open>eval\<close> as it is, with built-ins emptied and nothing else checked, and an expression
  needs no name at all to reach the interpreter's objects through attributes: for the
  expression below, with the context of the command line, the payoff of the path
  \<open>[100, 105]\<close> is the identifier of the host process, whatever that identifier is.
\<close>

theorem payoff_expression_reads_host_process:
  "map_sum (\<lambda>e. e) (\<lambda>payoff_fn. payoff_fn [100, 105])
     (build_expression_payoff (cpython_fragment pid) math_module
        ''[c for c in ().__class__.__base__.__subclasses__() if c.__name__ == '_wrap_close'][0].__init__.__globals__['getpid']()''
        (Some [''strike'' \<mapsto> 100]))
   = Inr (Inr (real_of_int pid), [100, 105])"
  by (simp add: build_expression_payoff_def cpython_fragment_def fragment_compile_def
      expression_payoff_def local_vars_def)

section \<open>Shadowing by the extra context\<close>



lemma local_vars_nonempty: "path \<noteq> [] \<Longrightarrow> \<exists>ns. local_vars extra_context path = Inr ns"
  by (simp add: local_vars_def)



lemma expression_payoff_eq:
  assumes "local_vars extra_context path = Inr ns"
  shows "expression_payoff py math_module code extra_context path =
     (case py_eval py code (safe_globals math_module) ns path of
        (Inl e, path') \<Rightarrow> (Inl e, path')
      | (Inr v, path') \<Rightarrow> (py_float py v, path'))"
  by (simp add: expression_payoff_def assms)



section \<open>Exceptions of the evaluator\<close>

text \<open>
  The source catches nothing: an exception of \<^verbatim>\<open>compile\<close> leaves
  \<^verbatim>\<open>build_expression_payoff\<close> before any closure exists, and an exception of
  \<^verbatim>\<open>eval\<close> or of \<^verbatim>\<open>float\<close> leaves the closure as it is.
\<close>

lemma build_expression_payoff_Inl:
  "build_expression_payoff py math_module expression extra_context = Inl e
   \<longleftrightarrow> py_compile py expression = Inl e"
  by (simp add: build_expression_payoff_def split: sum.splits)

lemma expression_payoff_result:
  assumes "local_vars extra_context path = Inr ns"
  shows "snd (expression_payoff py math_module code extra_context path)
           = snd (py_eval py code (safe_globals math_module) ns path)"
    and "fst (expression_payoff py math_module code extra_context path) = Inl e \<longleftrightarrow>
           fst (py_eval py code (safe_globals math_module) ns path) = Inl e
           \<or> (\<exists>v. fst (py_eval py code (safe_globals math_module) ns path) = Inr v
                  \<and> py_float py v = Inl e)"
    and "fst (expression_payoff py math_module code extra_context path) = Inr r \<longleftrightarrow>
           (\<exists>v. fst (py_eval py code (safe_globals math_module) ns path) = Inr v
                \<and> py_float py v = Inr r)"
  by (auto simp: expression_payoff_eq [OF assms] split: prod.splits sum.splits)

text \<open>
  C7, as the code has it. \<^verbatim>\<open>build_expression_payoff\<close> fails when it is called, and
  with the exception of \<^verbatim>\<open>compile\<close>, exactly when \<^verbatim>\<open>compile\<close> rejects the
  expression. Otherwise it returns a function that, on a non-empty path, fails exactly
  when \<^verbatim>\<open>eval\<close> raises or \<^verbatim>\<open>float\<close> rejects the value of \<^verbatim>\<open>eval\<close>, with that
  exception, and returns a number exactly when \<^verbatim>\<open>float\<close> accepts the value. Nothing
  is checked before the evaluation: in either case the path is left as the evaluation
  left it.
\<close>

theorem evaluator_fails_as_the_builtins_do:
  "(build_expression_payoff py math_module expression extra_context = Inl e
      \<longleftrightarrow> py_compile py expression = Inl e)
   \<and> (\<forall>code path. py_compile py expression = Inr code \<and> path \<noteq> [] \<longrightarrow>
         (\<exists>payoff_fn ns.
            build_expression_payoff py math_module expression extra_context = Inr payoff_fn
          \<and> local_vars (context_or_empty extra_context) path = Inr ns
          \<and> snd (payoff_fn path) = snd (py_eval py code (safe_globals math_module) ns path)
          \<and> (\<forall>e'. fst (payoff_fn path) = Inl e' \<longleftrightarrow>
                 fst (py_eval py code (safe_globals math_module) ns path) = Inl e'
                 \<or> (\<exists>v. fst (py_eval py code (safe_globals math_module) ns path) = Inr v
                        \<and> py_float py v = Inl e'))
          \<and> (\<forall>r. fst (payoff_fn path) = Inr r \<longleftrightarrow>
                 (\<exists>v. fst (py_eval py code (safe_globals math_module) ns path) = Inr v
                      \<and> py_float py v = Inr r))))"
proof (intro conjI allI impI)
  show "build_expression_payoff py math_module expression extra_context = Inl e
      \<longleftrightarrow> py_compile py expression = Inl e"
    by (rule build_expression_payoff_Inl)
next
  fix code and path :: "real list"
  assume a: "py_compile py expression = Inr code \<and> path \<noteq> []"
  then have ne: "path \<noteq> []" by simp
  from local_vars_nonempty [OF ne, of "context_or_empty extra_context"]
  obtain ns where ns: "local_vars (context_or_empty extra_context) path = Inr ns" ..
  have "build_expression_payoff py math_module expression extra_context
          = Inr (expression_payoff py math_module code (context_or_empty extra_context))"
    using a by (simp add: build_expression_payoff_def)
  then show "\<exists>payoff_fn ns.
            build_expression_payoff py math_module expression extra_context = Inr payoff_fn
          \<and> local_vars (context_or_empty extra_context) path = Inr ns
          \<and> snd (payoff_fn path) = snd (py_eval py code (safe_globals math_module) ns path)
          \<and> (\<forall>e'. fst (payoff_fn path) = Inl e' \<longleftrightarrow>
                 fst (py_eval py code (safe_globals math_module) ns path) = Inl e'
                 \<or> (\<exists>v. fst (py_eval py code (safe_globals math_module) ns path) = Inr v
                        \<and> py_float py v = Inl e'))
          \<and> (\<forall>r. fst (payoff_fn path) = Inr r \<longleftrightarrow>
                 (\<exists>v. fst (py_eval py code (safe_globals math_module) ns path) = Inr v
                      \<and> py_float py v = Inr r))"
    using ns expression_payoff_result [OF ns, of py math_module code] by auto
qed

text \<open>
  The theorem for an expression that \<^verbatim>\<open>compile\<close> accepts, on the path \<open>[100, 105]\<close>
  with the context of the command line.
\<close>

theorem evaluator_fails_as_the_builtins_do_witness:
  "(py_compile (cpython_fragment 1) ''('5')'' = Inr Quoted_Five \<and> [100, 105] \<noteq> ([] :: real list))
   \<and> (\<exists>payoff_fn ns.
         build_expression_payoff (cpython_fragment 1) [] ''('5')'' (Some [''strike'' \<mapsto> 100])
           = Inr payoff_fn
       \<and> local_vars (context_or_empty (Some [''strike'' \<mapsto> 100])) [100, 105] = Inr ns
       \<and> snd (payoff_fn [100, 105])
           = snd (py_eval (cpython_fragment 1) Quoted_Five (safe_globals []) ns [100, 105])
       \<and> (\<forall>e'. fst (payoff_fn [100, 105]) = Inl e' \<longleftrightarrow>
              fst (py_eval (cpython_fragment 1) Quoted_Five (safe_globals []) ns [100, 105]) = Inl e'
              \<or> (\<exists>v. fst (py_eval (cpython_fragment 1) Quoted_Five (safe_globals []) ns [100, 105])
                        = Inr v
                     \<and> py_float (cpython_fragment 1) v = Inl e'))
       \<and> (\<forall>r. fst (payoff_fn [100, 105]) = Inr r \<longleftrightarrow>
              (\<exists>v. fst (py_eval (cpython_fragment 1) Quoted_Five (safe_globals []) ns [100, 105])
                     = Inr v
                   \<and> py_float (cpython_fragment 1) v = Inr r)))"
proof -
  have c: "py_compile (cpython_fragment 1) ''('5')'' = Inr Quoted_Five
             \<and> [100, 105] \<noteq> ([] :: real list)"
    by (simp add: cpython_fragment_def fragment_compile_def)
  show ?thesis
    by (rule conjI [OF c
          evaluator_fails_as_the_builtins_do
            [of "cpython_fragment 1" "[]" "''('5')''" "Some [''strike'' \<mapsto> 100]" SyntaxError,
             THEN conjunct2, rule_format, OF c]])
qed

text \<open>
  C7, as the claim states it: the payoff function fails when the expression's result is
  not a number or when the expression refers to an undefined name, and an expression with
  an undefined name has no effect before it fails. On the path \<open>[100, 105]\<close>, with the
  context of the command line: the value of \<^verbatim>\<open>('5')\<close> is a string and the payoff is
  5; \<^verbatim>\<open>0 and nope\<close> refers to the undefined name \<^verbatim>\<open>nope\<close> and the payoff is 0;
  \<^verbatim>\<open>path.append(0.0) or nope\<close> fails on the undefined name after it has appended to
  the path.
\<close>

theorem evaluator_failures_counterexample:
  "map_sum (\<lambda>e. e) (\<lambda>payoff_fn. payoff_fn [100, 105])
     (build_expression_payoff (cpython_fragment 1) [] ''('5')'' (Some [''strike'' \<mapsto> 100]))
     = Inr (Inr 5, [100, 105])
   \<and> map_sum (\<lambda>e. e) (\<lambda>payoff_fn. payoff_fn [100, 105])
       (build_expression_payoff (cpython_fragment 1) [] ''0 and nope'' (Some [''strike'' \<mapsto> 100]))
     = Inr (Inr 0, [100, 105])
   \<and> map_sum (\<lambda>e. e) (\<lambda>payoff_fn. payoff_fn [100, 105])
       (build_expression_payoff (cpython_fragment 1) [] ''path.append(0.0) or nope''
          (Some [''strike'' \<mapsto> 100]))
     = Inr (Inl (NameError ''nope''), [100, 105, 0])"
  by (simp add: build_expression_payoff_def cpython_fragment_def fragment_compile_def
      expression_payoff_def local_vars_def context_or_empty_def load_name_def safe_globals_def
      math_namespace_def map_add_def)

end
